theory Spec2Isabelle
  imports Main "HOL-Library.Word"
begin

section \<open>The Database resource (api/v1)\<close>

text \<open>
  The Go string types of the API (\<open>DatabaseEngine\<close>, \<open>DatabasePhase\<close>, \<open>DeletionPolicy\<close>,
  \<open>TopologyMode\<close>) stay strings, with the declared constants as abbreviations. Only the
  fields that the reconciler, the engine, the version helpers and the rotation manager read
  or write are kept in the records; record fields carry the name of their struct as a prefix where two
  structs share a field name.

  A \<open>time.Time\<close> is the number of nanoseconds since 1 January 1970, 00:00, on the
  clock of the location of the process, which is taken to keep one offset (UTC in a
  container); a \<open>time.Duration\<close> is a number of nanoseconds.
\<close>

type_synonym Time = int
type_synonym Duration = int
type_synonym ObjectKey = "string \<times> string"

type_synonym DatabaseEngine = string
abbreviation EnginePostgreSQL :: DatabaseEngine where "EnginePostgreSQL \<equiv> ''PostgreSQL''"
abbreviation EngineMongoDB :: DatabaseEngine where "EngineMongoDB \<equiv> ''MongoDB''"
abbreviation EngineRedis :: DatabaseEngine where "EngineRedis \<equiv> ''Redis''"
abbreviation EngineElasticsearch :: DatabaseEngine where "EngineElasticsearch \<equiv> ''Elasticsearch''"
abbreviation EngineSQLite :: DatabaseEngine where "EngineSQLite \<equiv> ''SQLite''"

type_synonym DatabasePhase = string
abbreviation PhasePending :: DatabasePhase where "PhasePending \<equiv> ''Pending''"
abbreviation PhaseProvisioning :: DatabasePhase where "PhaseProvisioning \<equiv> ''Provisioning''"
abbreviation PhaseReady :: DatabasePhase where "PhaseReady \<equiv> ''Ready''"
abbreviation PhaseUpgrading :: DatabasePhase where "PhaseUpgrading \<equiv> ''Upgrading''"
abbreviation PhaseFailed :: DatabasePhase where "PhaseFailed \<equiv> ''Failed''"
abbreviation PhasePaused :: DatabasePhase where "PhasePaused \<equiv> ''Paused''"
abbreviation PhaseDeleting :: DatabasePhase where "PhaseDeleting \<equiv> ''Deleting''"

type_synonym DeletionPolicy = string
abbreviation DeletionPolicyRetain :: DeletionPolicy where "DeletionPolicyRetain \<equiv> ''Retain''"
abbreviation DeletionPolicySnapshot :: DeletionPolicy where "DeletionPolicySnapshot \<equiv> ''Snapshot''"
abbreviation DeletionPolicyDelete :: DeletionPolicy where "DeletionPolicyDelete \<equiv> ''Delete''"

type_synonym TopologyMode = string
abbreviation TopologyStandalone :: TopologyMode where "TopologyStandalone \<equiv> ''Standalone''"
abbreviation TopologyReplicated :: TopologyMode where "TopologyReplicated \<equiv> ''Replicated''"
abbreviation TopologyCluster :: TopologyMode where "TopologyCluster \<equiv> ''Cluster''"
abbreviation TopologySharded :: TopologyMode where "TopologySharded \<equiv> ''Sharded''"

abbreviation ConditionTypeReady :: string where "ConditionTypeReady \<equiv> ''Ready''"
abbreviation ConditionTypeProvisioned :: string where "ConditionTypeProvisioned \<equiv> ''Provisioned''"
abbreviation ConditionTypeStorageReady :: string where "ConditionTypeStorageReady \<equiv> ''StorageReady''"
abbreviation ConditionTypeBackupConfigured :: string where
  "ConditionTypeBackupConfigured \<equiv> ''BackupConfigured''"
abbreviation ConditionTypeUpgrading :: string where "ConditionTypeUpgrading \<equiv> ''Upgrading''"
abbreviation ConditionTypeValidated :: string where "ConditionTypeValidated \<equiv> ''Validated''"

text \<open>\<open>metav1.ConditionStatus\<close> and \<open>metav1.Condition\<close>.\<close>

datatype ConditionStatus = ConditionTrue | ConditionFalse | ConditionUnknown

record Condition =
  Cond_Type :: string
  Cond_Status :: ConditionStatus
  Cond_ObservedGeneration :: "64 word"
  Cond_LastTransitionTime :: Time
  Cond_Reason :: string
  Cond_Message :: string

record TopologySpec =
  Mode :: TopologyMode
  Replicas :: "32 word"

record StorageSpec =
  StorageClassName :: string
  Size :: string
  VolumeMode :: string

record NetworkingSpec =
  ServiceType :: string
  Networking_Port :: "32 word"

text \<open>\<open>corev1.ResourceRequirements\<close>: the limits and the requests, by resource name.\<close>

type_synonym ResourceRequirements = "(string \<times> string) list \<times> (string \<times> string) list"

record BackupSpec =
  Backup_Enabled :: bool
  Backup_Schedule :: string
  Backup_Retention :: "32 word"

record RestoreSpec =
  BackupName :: string

record ConsulSpec =
  Consul_Enabled :: bool
  Consul_Address :: string
  Consul_Path :: string

record RotationPolicy =
  Rotation_Enabled :: bool
  Rotation_Schedule :: string
  Rotation_Strategy :: string

record AuthSpec =
  Consul :: "ConsulSpec option"
  RotationPolicy :: "RotationPolicy option"

record MaintenanceWindow =
  DayOfWeek :: int
  StartTime :: string
  Window_Duration :: Duration

record MaintenanceSpec =
  Windows :: "MaintenanceWindow list"

record LifecycleSpec =
  Paused :: bool
  DeletionPolicy :: DeletionPolicy

text \<open>
  \<open>EngineConfig\<close> is a Go map that \<open>generatePostgresConfig\<close> ranges over; it is kept as the
  list of its entries in the order the range visits them.
\<close>

record DatabaseSpec =
  Engine :: DatabaseEngine
  Version :: string
  Topology :: TopologySpec
  Storage :: StorageSpec
  Resources :: ResourceRequirements
  Networking :: NetworkingSpec
  Backup :: BackupSpec
  Restore :: "RestoreSpec option"
  Auth :: AuthSpec
  Maintenance :: MaintenanceSpec
  Lifecycle :: LifecycleSpec
  EngineConfig :: "(string \<times> string) list"

record HealthStatus =
  Health_Status :: string
  Health_Message :: string
  Health_LastCheckTime :: "Time option"

record RotationStatus =
  Rotation_Phase :: string
  LastRotation :: "Time option"
  NextRotation :: "Time option"
  JobName :: string

record DatabaseStatus =
  Phase :: DatabasePhase
  Conditions :: "Condition list"
  Endpoint :: string
  ReadyReplicas :: "32 word"
  CurrentVersion :: string
  ObservedGeneration :: "64 word"
  Health :: HealthStatus
  LastReconcileTime :: "Time option"
  RotationStatus :: "RotationStatus option"

record Database =
  Name :: string
  Namespace :: string
  Generation :: "64 word"
  DeletionTimestamp :: "Time option"
  Finalizers :: "string list"
  Spec :: DatabaseSpec
  Status :: DatabaseStatus

text \<open>
  Go errors are values. \<open>NotFound\<close> and \<open>AlreadyExists\<close> are the API status errors that
  \<open>errors.IsNotFound\<close> tells apart, \<open>Wrapped\<close> is \<open>fmt.Errorf("...: %w", err)\<close>, and
  \<open>Panic\<close> is a run-time panic, which leaves the function without a return value.
\<close>

datatype error =
    Error string
  | NotFound string
  | AlreadyExists string
  | Wrapped string error
  | Panic string

fun message :: "error \<Rightarrow> string" where
  "message (Error m) = m"
| "message (NotFound n) = n @ '' not found''"
| "message (AlreadyExists n) = n @ '' already exists''"
| "message (Wrapped m e) = m @ '': '' @ message e"
| "message (Panic m) = ''panic: '' @ m"

fun IsNotFound :: "error \<Rightarrow> bool" where
  "IsNotFound (NotFound n) = True"
| "IsNotFound e = False"


section \<open>Version helpers (package utils)\<close>

text \<open>\<open>strings.Split(s, ".")\<close>: the pieces between the separators; never an empty list.\<close>

fun Split :: "string \<Rightarrow> char \<Rightarrow> string list" where
  "Split [] sep = [[]]"
| "Split (c # cs) sep =
     (if c = sep then [] # Split cs sep
      else (case Split cs sep of [] \<Rightarrow> [[c]] | p # ps \<Rightarrow> (c # p) # ps))"

definition digit :: "char \<Rightarrow> int option" where
  "digit c =
     map_of [(CHR ''0'', 0), (CHR ''1'', 1), (CHR ''2'', 2), (CHR ''3'', 3), (CHR ''4'', 4),
             (CHR ''5'', 5), (CHR ''6'', 6), (CHR ''7'', 7), (CHR ''8'', 8), (CHR ''9'', 9)] c"

fun digits :: "int \<Rightarrow> string \<Rightarrow> int option" where
  "digits n [] = Some n"
| "digits n (c # cs) = (case digit c of None \<Rightarrow> None | Some d \<Rightarrow> digits (n * 10 + d) cs)"

text \<open>
  \<open>strconv.Atoi\<close> on a 64-bit platform: an optional sign, then at least one decimal digit
  and nothing else; a value outside the range of \<open>int\<close> is an error. \<open>None\<close> is the error.
\<close>

definition Atoi :: "string \<Rightarrow> int option" where
  "Atoi s =
     (case s of
        [] \<Rightarrow> None
      | c # cs \<Rightarrow>
          (let body = (if c = CHR ''-'' \<or> c = CHR ''+'' then cs else s)
           in if body = [] then None
              else (case digits 0 body of
                      None \<Rightarrow> None
                    | Some n \<Rightarrow>
                        (let v = (if c = CHR ''-'' then - n else n)
                         in if - (2 ^ 63) \<le> v \<and> v < 2 ^ 63 then Some v else None))))"

definition decide :: "int \<Rightarrow> int \<Rightarrow> error + int \<Rightarrow> error + int" where
  "decide n1 n2 rest = (if n1 < n2 then Inr (- 1) else if n1 > n2 then Inr 1 else rest)"

definition invalidVersion :: "string \<Rightarrow> error" where
  "invalidVersion v = Error (''invalid version format: '' @ v)"

text \<open>
  The loop of \<open>CompareVersions\<close> over \<open>i < maxLen\<close>, as a recursion over what is left of
  \<open>parts1\<close> and \<open>parts2\<close> from index \<open>i\<close> on: a missing component counts as 0, the component of
  \<open>v1\<close> is parsed before the one of \<open>v2\<close>, and the first pair that differs decides.
\<close>

fun compareParts :: "string \<Rightarrow> string \<Rightarrow> string list \<Rightarrow> string list \<Rightarrow> error + int" where
  "compareParts v1 v2 [] [] = Inr 0"
| "compareParts v1 v2 (p # ps) [] =
     (case Atoi p of
        None \<Rightarrow> Inl (invalidVersion v1)
      | Some n1 \<Rightarrow> decide n1 0 (compareParts v1 v2 ps []))"
| "compareParts v1 v2 [] (q # qs) =
     (case Atoi q of
        None \<Rightarrow> Inl (invalidVersion v2)
      | Some n2 \<Rightarrow> decide 0 n2 (compareParts v1 v2 [] qs))"
| "compareParts v1 v2 (p # ps) (q # qs) =
     (case Atoi p of
        None \<Rightarrow> Inl (invalidVersion v1)
      | Some n1 \<Rightarrow>
          (case Atoi q of
             None \<Rightarrow> Inl (invalidVersion v2)
           | Some n2 \<Rightarrow> decide n1 n2 (compareParts v1 v2 ps qs)))"

definition CompareVersions :: "string \<Rightarrow> string \<Rightarrow> error + int" where
  "CompareVersions v1 v2 = compareParts v1 v2 (Split v1 CHR ''.'') (Split v2 CHR ''.'')"

definition IsVersionDowngrade :: "string \<Rightarrow> string \<Rightarrow> error + bool" where
  "IsVersionDowngrade currentVersion newVersion =
     (case CompareVersions currentVersion newVersion of
        Inl err \<Rightarrow> Inl err
      | Inr cmp \<Rightarrow> Inr (cmp > 0))"


section \<open>Spec validation (controllers)\<close>

text \<open>\<open>validateVersionUpgrade\<close> has no body but \<open>return nil\<close>.\<close>

definition validateVersionUpgrade :: "string \<Rightarrow> string \<Rightarrow> error option" where
  "validateVersionUpgrade currentVersion desiredVersion = None"

definition validateSpec :: "Database \<Rightarrow> error option" where
  "validateSpec db =
     (if Engine (Spec db) = EngineSQLite \<and> 1 <s Replicas (Topology (Spec db))
      then Some (Error ''SQLite does not support multiple replicas'')
      else if Engine (Spec db) = EngineElasticsearch
              \<and> Mode (Topology (Spec db)) = TopologyStandalone
      then Some (Error ''Elasticsearch requires at least 3 nodes for production use'')
      else (case (if CurrentVersion (Status db) \<noteq> []
                  then validateVersionUpgrade (CurrentVersion (Status db)) (Version (Spec db))
                  else None) of
              Some err \<Rightarrow> Some err
            | None \<Rightarrow> None))"


section \<open>Conditions and phase\<close>

definition updatePhase :: "Database \<Rightarrow> DatabasePhase \<Rightarrow> Database" where
  "updatePhase db phase = db\<lparr>Status := (Status db)\<lparr>Phase := phase\<rparr>\<rparr>"

text \<open>
  The loop of \<open>setCondition\<close>: \<open>Some\<close> of the list as the loop leaves it when it returns from
  inside (at the first entry of that type, replaced only if the status differs), \<open>None\<close>
  when no entry has the type.
\<close>

fun findExisting :: "Condition \<Rightarrow> Condition list \<Rightarrow> Condition list option" where
  "findExisting condition [] = None"
| "findExisting condition (c # cs) =
     (if Cond_Type c = Cond_Type condition
      then Some (if Cond_Status c \<noteq> Cond_Status condition then condition # cs else c # cs)
      else map_option ((#) c) (findExisting condition cs))"

definition setConditions ::
  "Condition \<Rightarrow> Condition list \<Rightarrow> Condition list" where
  "setConditions condition cs =
     (case findExisting condition cs of Some cs' \<Rightarrow> cs' | None \<Rightarrow> cs @ [condition])"

text \<open>\<open>now\<close> is the reading of \<open>metav1.Now()\<close>.\<close>

definition setCondition ::
  "Time \<Rightarrow> Database \<Rightarrow> string \<Rightarrow> ConditionStatus \<Rightarrow> string \<Rightarrow> string \<Rightarrow> Database" where
  "setCondition now db conditionType status reason msg =
     (let condition = \<lparr>Cond_Type = conditionType, Cond_Status = status,
                        Cond_ObservedGeneration = Generation db,
                        Cond_LastTransitionTime = now,
                        Cond_Reason = reason, Cond_Message = msg\<rparr>
      in db\<lparr>Status := (Status db)\<lparr>Conditions := setConditions condition (Conditions (Status db))\<rparr>\<rparr>)"


section \<open>Maintenance windows\<close>

definition nsPerSecond :: int where "nsPerSecond = 1000000000"
definition nsPerDay :: int where "nsPerDay = 86400 * nsPerSecond"

text \<open>\<open>Weekday\<close>: 0 is Sunday; 1 January 1970 was a Thursday.\<close>

definition Weekday :: "Time \<Rightarrow> int" where
  "Weekday t = (t div nsPerDay + 4) mod 7"

text \<open>
  \<open>time.Date(now.Year(), now.Month(), now.Day(), hour, min, 0, 0, now.Location())\<close>:
  the given time of day on the calendar day of \<open>now\<close>.
\<close>

definition onDayOf :: "Time \<Rightarrow> int \<Rightarrow> int \<Rightarrow> Time" where
  "onDayOf now hour minute =
     (now div nsPerDay) * nsPerDay + (hour * 3600 + minute * 60) * nsPerSecond"

text \<open>
  \<open>time.Parse("15:04", s)\<close>, of which the caller reads \<open>Hour()\<close> and \<open>Minute()\<close>: the hour
  is one or two digits (two when the second character is a digit) below 24, then a colon,
  then exactly two digits below 60, and nothing after them.
\<close>

definition getnum :: "string \<Rightarrow> bool \<Rightarrow> (int \<times> string) option" where
  "getnum s fixed =
     (case s of
        [] \<Rightarrow> None
      | a # r \<Rightarrow>
          (case digit a of
             None \<Rightarrow> None
           | Some x \<Rightarrow>
               (case r of
                  [] \<Rightarrow> if fixed then None else Some (x, r)
                | b # r' \<Rightarrow>
                    (case digit b of
                       None \<Rightarrow> if fixed then None else Some (x, r)
                     | Some y \<Rightarrow> Some (x * 10 + y, r')))))"

definition ParseHHMM :: "string \<Rightarrow> (int \<times> int) option" where
  "ParseHHMM s =
     (case getnum s False of
        None \<Rightarrow> None
      | Some (hour, r) \<Rightarrow>
          if 24 \<le> hour then None
          else (case r of
                  [] \<Rightarrow> None
                | c # r' \<Rightarrow>
                    if c \<noteq> CHR '':'' then None
                    else (case getnum r' True of
                            None \<Rightarrow> None
                          | Some (minute, rest) \<Rightarrow>
                              if 60 \<le> minute \<or> rest \<noteq> [] then None
                              else Some (hour, minute))))"

text \<open>The loop over the windows: \<open>True\<close> when it returns \<open>nil\<close> from inside.\<close>

fun inWindow :: "Time \<Rightarrow> MaintenanceWindow list \<Rightarrow> bool" where
  "inWindow now [] = False"
| "inWindow now (window # ws) =
     (if Weekday now = DayOfWeek window
      then (case ParseHHMM (StartTime window) of
              None \<Rightarrow> inWindow now ws
            | Some (hour, minute) \<Rightarrow>
                (let windowStart = onDayOf now hour minute;
                     windowEnd = windowStart + Window_Duration window
                 in if windowStart < now \<and> now < windowEnd then True
                    else inWindow now ws))
      else inWindow now ws)"

definition checkMaintenanceWindow :: "Time \<Rightarrow> Database \<Rightarrow> error option" where
  "checkMaintenanceWindow now db =
     (if length (Windows (Maintenance (Spec db))) = 0 then None
      else if inWindow now (Windows (Maintenance (Spec db))) then None
      else Some (Error ''not in maintenance window''))"


section \<open>The platform\<close>

text \<open>
  The API server and the other collaborators of the controller are an explicit state. Every
  call that leaves the process is appended to \<open>log\<close>, and \<open>fault\<close> says which calls fail for
  reasons of the platform (a timeout, a conflict, a refused reference); a call that does
  not fail this way behaves as the API server does: \<open>Get\<close> answers \<open>NotFound\<close> for an
  absent object, \<open>Create\<close> answers \<open>AlreadyExists\<close> for a present one. \<open>clock\<close> is the
  reading of \<open>time.Now()\<close> and \<open>metav1.Now()\<close> during the call. Which strings
  \<open>resource.MustParse\<close> refuses is read from \<open>fault\<close> as well, at \<open>MustParse\<close>; that
  question is not a call and is not logged.
\<close>

datatype kind =
    KDatabase | KSecret | KJob | KCronJob | KStatefulSet | KDeployment
  | KPersistentVolumeClaim | KConfigMap | KService

datatype verb = Get | Create | Update | StatusUpdate | Delete

datatype engineMethod =
    MValidate | MEnsureStorage | MEnsureConfig | MEnsureService | MEnsureWorkload
  | MScale | MUpgrade | MBackup | MRestore | MRotateAuth | MHeal | MStatus | MGetEndpoint

datatype call =
    ClientCall verb kind ObjectKey
  | EngineCall engineMethod
  | SetControllerReference kind ObjectKey
  | RandRead
  | MustParse string

datatype EnvVar = EnvValue string string | EnvSecretKeyRef string string string

record Secret =
  Secret_Name :: string
  Secret_Namespace :: string
  Secret_Labels :: "(string \<rightharpoonup> string) option"
  StringData :: "string \<rightharpoonup> string"
  Data :: "string \<rightharpoonup> string"
  Secret_Owner :: "string option"

record Job =
  Job_Name :: string
  Job_Namespace :: string
  Job_Labels :: "string \<rightharpoonup> string"
  Job_Image :: string
  Job_Command :: "string list"
  Job_Env :: "EnvVar list"
  Job_BackoffLimit :: "32 word"
  Job_Owner :: "string option"
  Succeeded :: "32 word"
  Failed :: "32 word"

record CronJob =
  CronJob_Name :: string
  CronJob_Namespace :: string
  CronJob_Labels :: "string \<rightharpoonup> string"
  CronJob_Schedule :: string
  CronJob_Image :: string
  SuccessfulJobsHistoryLimit :: "32 word"
  FailedJobsHistoryLimit :: "32 word"
  CronJob_Owner :: "string option"

record PersistentVolumeClaim =
  PVC_Name :: string
  PVC_Namespace :: string
  PVC_AccessModes :: "string list"
  PVC_Storage :: string
  PVC_StorageClassName :: "string option"
  PVC_VolumeMode :: "string option"
  PVC_Owner :: "string option"

text \<open>The \<open>Data\<close> of a ConfigMap is \<open>None\<close> when the Go map is nil.\<close>

record ConfigMap =
  ConfigMap_Name :: string
  ConfigMap_Namespace :: string
  ConfigMap_Data :: "(string \<rightharpoonup> string) option"
  ConfigMap_Owner :: "string option"

record ServicePort =
  Port_Name :: string
  Port :: "32 word"
  TargetPort :: int
  Protocol :: string

record Service =
  Service_Name :: string
  Service_Namespace :: string
  Selector :: "string \<rightharpoonup> string"
  Service_Type :: string
  Ports :: "ServicePort list"
  Service_Owner :: "string option"

text \<open>
  Of a StatefulSet: the replicas, the selector (which is also the labels of the pod
  template), the service name, and of its one container the image, the environment and
  the resources; \<open>Sts_ReadyReplicas\<close> is its status. The ports, the volume mounts and the
  volumes of the template are constants of the engine and are left out.
\<close>

record StatefulSet =
  Sts_Name :: string
  Sts_Namespace :: string
  Sts_Replicas :: "32 word"
  Sts_Selector :: "string \<rightharpoonup> string"
  Sts_ServiceName :: string
  Sts_Image :: string
  Sts_Env :: "EnvVar list"
  Sts_Resources :: ResourceRequirements
  Sts_Owner :: "string option"
  Sts_ReadyReplicas :: "32 word"

text \<open>Of a Deployment only the ready replicas of its status are read.\<close>

record world =
  clock :: Time
  fault :: "call \<Rightarrow> error option"
  log :: "call list"
  databases :: "ObjectKey \<rightharpoonup> Database"
  secrets :: "ObjectKey \<rightharpoonup> Secret"
  jobs :: "ObjectKey \<rightharpoonup> Job"
  cronjobs :: "ObjectKey \<rightharpoonup> CronJob"
  statefulsets :: "ObjectKey \<rightharpoonup> StatefulSet"
  deployments :: "ObjectKey \<rightharpoonup> 32 word"
  pvcs :: "ObjectKey \<rightharpoonup> PersistentVolumeClaim"
  configmaps :: "ObjectKey \<rightharpoonup> ConfigMap"
  services :: "ObjectKey \<rightharpoonup> Service"

definition logged :: "call \<Rightarrow> world \<Rightarrow> world" where
  "logged c w = w\<lparr>log := log w @ [c]\<rparr>"

definition client_Get ::
  "(world \<Rightarrow> ObjectKey \<rightharpoonup> 'a) \<Rightarrow> kind \<Rightarrow> ObjectKey \<Rightarrow> world \<Rightarrow> (error + 'a) \<times> world" where
  "client_Get store k key w =
     (let c = ClientCall Get k key
      in case fault w c of
           Some e \<Rightarrow> (Inl e, logged c w)
         | None \<Rightarrow>
             (case store w key of
                None \<Rightarrow> (Inl (NotFound (snd key)), logged c w)
              | Some x \<Rightarrow> (Inr x, logged c w)))"

text \<open>
  \<open>r.Update\<close> writes metadata and spec; the status is a subresource and keeps the stored
  value. \<open>r.Status().Update\<close> writes the status only. Both leave the answer of the server
  in the object they were given. The removal of an object whose last finalizer is gone
  is the platform's business and is not part of the state.
\<close>

definition client_Update :: "Database \<Rightarrow> world \<Rightarrow> error option \<times> Database \<times> world" where
  "client_Update db w =
     (let key = (Namespace db, Name db); c = ClientCall Update KDatabase key
      in case fault w c of
           Some e \<Rightarrow> (Some e, db, logged c w)
         | None \<Rightarrow>
             (case databases w key of
                None \<Rightarrow> (Some (NotFound (Name db)), db, logged c w)
              | Some old \<Rightarrow>
                  (let db' = db\<lparr>Status := Status old\<rparr>
                   in (None, db', (logged c w)\<lparr>databases := (databases w)(key \<mapsto> db')\<rparr>))))"

definition Status_Update :: "Database \<Rightarrow> world \<Rightarrow> error option \<times> Database \<times> world" where
  "Status_Update db w =
     (let key = (Namespace db, Name db); c = ClientCall StatusUpdate KDatabase key
      in case fault w c of
           Some e \<Rightarrow> (Some e, db, logged c w)
         | None \<Rightarrow>
             (case databases w key of
                None \<Rightarrow> (Some (NotFound (Name db)), db, logged c w)
              | Some old \<Rightarrow>
                  (let db' = old\<lparr>Status := Status db\<rparr>
                   in (None, db', (logged c w)\<lparr>databases := (databases w)(key \<mapsto> db')\<rparr>))))"

text \<open>The API server folds \<open>StringData\<close> into \<open>Data\<close> when it stores a secret.\<close>

definition stored_Secret :: "Secret \<Rightarrow> Secret" where
  "stored_Secret s = s\<lparr>Data := Data s ++ StringData s, StringData := Map.empty\<rparr>"

definition Create_Secret :: "Secret \<Rightarrow> world \<Rightarrow> error option \<times> world" where
  "Create_Secret s w =
     (let key = (Secret_Namespace s, Secret_Name s); c = ClientCall Create KSecret key
      in case fault w c of
           Some e \<Rightarrow> (Some e, logged c w)
         | None \<Rightarrow>
             (if secrets w key \<noteq> None then (Some (AlreadyExists (Secret_Name s)), logged c w)
              else (None, (logged c w)\<lparr>secrets := (secrets w)(key \<mapsto> stored_Secret s)\<rparr>)))"

definition Delete_Secret :: "ObjectKey \<Rightarrow> world \<Rightarrow> error option \<times> world" where
  "Delete_Secret key w =
     (let c = ClientCall Delete KSecret key
      in case fault w c of
           Some e \<Rightarrow> (Some e, logged c w)
         | None \<Rightarrow>
             (if secrets w key = None then (Some (NotFound (snd key)), logged c w)
              else (None, (logged c w)\<lparr>secrets := (secrets w)(key := None)\<rparr>)))"

definition Create_Job :: "Job \<Rightarrow> world \<Rightarrow> error option \<times> world" where
  "Create_Job j w =
     (let key = (Job_Namespace j, Job_Name j); c = ClientCall Create KJob key
      in case fault w c of
           Some e \<Rightarrow> (Some e, logged c w)
         | None \<Rightarrow>
             (if jobs w key \<noteq> None then (Some (AlreadyExists (Job_Name j)), logged c w)
              else (None, (logged c w)\<lparr>jobs := (jobs w)(key \<mapsto> j)\<rparr>)))"

definition Create_CronJob :: "CronJob \<Rightarrow> world \<Rightarrow> error option \<times> world" where
  "Create_CronJob j w =
     (let key = (CronJob_Namespace j, CronJob_Name j); c = ClientCall Create KCronJob key
      in case fault w c of
           Some e \<Rightarrow> (Some e, logged c w)
         | None \<Rightarrow>
             (if cronjobs w key \<noteq> None then (Some (AlreadyExists (CronJob_Name j)), logged c w)
              else (None, (logged c w)\<lparr>cronjobs := (cronjobs w)(key \<mapsto> j)\<rparr>)))"

text \<open>
  \<open>Create\<close> and \<open>Update\<close> of an object of any kind: \<open>store\<close> reads the objects of the kind
  from the platform, \<open>put\<close> writes them, and \<open>admit\<close> is what the API server makes of an
  object when it stores it.
\<close>

definition client_Create ::
  "kind \<Rightarrow> (world \<Rightarrow> ObjectKey \<rightharpoonup> 'a) \<Rightarrow> ((ObjectKey \<rightharpoonup> 'a) \<Rightarrow> world \<Rightarrow> world) \<Rightarrow> ('a \<Rightarrow> 'a)
     \<Rightarrow> ObjectKey \<Rightarrow> 'a \<Rightarrow> world \<Rightarrow> (error + 'a) \<times> world" where
  "client_Create k store put admit key x w =
     (let c = ClientCall Create k key
      in case fault w c of
           Some e \<Rightarrow> (Inl e, logged c w)
         | None \<Rightarrow>
             (if store w key \<noteq> None then (Inl (AlreadyExists (snd key)), logged c w)
              else (Inr (admit x), put ((store w)(key \<mapsto> admit x)) (logged c w))))"

definition client_Update_object ::
  "kind \<Rightarrow> (world \<Rightarrow> ObjectKey \<rightharpoonup> 'a) \<Rightarrow> ((ObjectKey \<rightharpoonup> 'a) \<Rightarrow> world \<Rightarrow> world) \<Rightarrow> ('a \<Rightarrow> 'a)
     \<Rightarrow> ObjectKey \<Rightarrow> 'a \<Rightarrow> world \<Rightarrow> (error + 'a) \<times> world" where
  "client_Update_object k store put admit key x w =
     (let c = ClientCall Update k key
      in case fault w c of
           Some e \<Rightarrow> (Inl e, logged c w)
         | None \<Rightarrow>
             (if store w key = None then (Inl (NotFound (snd key)), logged c w)
              else (Inr (admit x), put ((store w)(key \<mapsto> admit x)) (logged c w))))"

text \<open>
  \<open>controllerutil.CreateOrUpdate\<close>: read the object; if it is absent, apply the mutation
  to the given object and create it; if it is present, apply the mutation to what was
  read and update it unless the mutation changed nothing. The mutation answers \<open>Inl\<close>
  when it fails or panics.
\<close>

definition CreateOrUpdate ::
  "kind \<Rightarrow> (world \<Rightarrow> ObjectKey \<rightharpoonup> 'a) \<Rightarrow> ((ObjectKey \<rightharpoonup> 'a) \<Rightarrow> world \<Rightarrow> world) \<Rightarrow> ('a \<Rightarrow> 'a)
     \<Rightarrow> ObjectKey \<Rightarrow> 'a \<Rightarrow> ('a \<Rightarrow> error + 'a) \<Rightarrow> world \<Rightarrow> (error + 'a) \<times> world" where
  "CreateOrUpdate k store put admit key x f w =
     (case client_Get store k key w of
        (Inl e, w1) \<Rightarrow>
          if \<not> IsNotFound e then (Inl e, w1)
          else (case f x of
                  Inl e' \<Rightarrow> (Inl e', w1)
                | Inr x' \<Rightarrow> client_Create k store put admit key x' w1)
      | (Inr existing, w1) \<Rightarrow>
          (case f existing of
             Inl e' \<Rightarrow> (Inl e', w1)
           | Inr x' \<Rightarrow>
               if x' = existing then (Inr x', w1)
               else client_Update_object k store put admit key x' w1))"

text \<open>\<open>controllerutil\<close>: finalizers and the controller reference.\<close>

definition databaseFinalizer :: string where
  "databaseFinalizer = ''db.platform.io/finalizer''"

definition ContainsFinalizer :: "Database \<Rightarrow> string \<Rightarrow> bool" where
  "ContainsFinalizer db f = (f \<in> set (Finalizers db))"

definition AddFinalizer :: "Database \<Rightarrow> string \<Rightarrow> Database" where
  "AddFinalizer db f = (if f \<in> set (Finalizers db) then db else db\<lparr>Finalizers := Finalizers db @ [f]\<rparr>)"

definition RemoveFinalizer :: "Database \<Rightarrow> string \<Rightarrow> Database" where
  "RemoveFinalizer db f = db\<lparr>Finalizers := filter (\<lambda>x. x \<noteq> f) (Finalizers db)\<rparr>"

definition SetControllerRef :: "kind \<Rightarrow> ObjectKey \<Rightarrow> world \<Rightarrow> error option \<times> world" where
  "SetControllerRef k key w =
     (let c = SetControllerReference k key in (fault w c, logged c w))"


section \<open>Formatting\<close>

text \<open>Decimal digits of a number, for \<open>%d\<close>.\<close>

definition digitChar :: "nat \<Rightarrow> char" where
  "digitChar n = ''0123456789'' ! n"

fun showNat :: "nat \<Rightarrow> string" where
  "showNat n =
     (if n < 10 then [digitChar n] else showNat (n div 10) @ [digitChar (n mod 10)])"

definition showInt :: "int \<Rightarrow> string" where
  "showInt i = (if i < 0 then CHR ''-'' # showNat (nat (- i)) else showNat (nat i))"


section \<open>Engines\<close>

text \<open>
  \<open>Engine\<close> is an interface: one function per method, from the Database the method is
  handed and the platform to what the method returns and the platform as it leaves it.
  (\<open>Validate\<close> is handed no client.) No method of the implementation below writes to the
  Database, so a method does not return it. A method that panics answers \<open>Inl\<close> with a
  \<open>Panic\<close>.
\<close>

record Engine =
  Validate :: "Database \<Rightarrow> error + unit"
  EnsureStorage :: "Database \<Rightarrow> world \<Rightarrow> (error + PersistentVolumeClaim) \<times> world"
  EnsureConfig :: "Database \<Rightarrow> world \<Rightarrow> (error + unit) \<times> world"
  EnsureService :: "Database \<Rightarrow> world \<Rightarrow> (error + Service) \<times> world"
  EnsureWorkload :: "Database \<Rightarrow> world \<Rightarrow> (error + unit) \<times> world"
  Scale :: "Database \<Rightarrow> world \<Rightarrow> (error + unit) \<times> world"
  Upgrade :: "Database \<Rightarrow> world \<Rightarrow> (error + unit) \<times> world"
  Engine_Backup :: "Database \<Rightarrow> world \<Rightarrow> (error + string) \<times> world"
  Engine_Restore :: "Database \<Rightarrow> world \<Rightarrow> (error + unit) \<times> world"
  RotateAuth :: "Database \<Rightarrow> world \<Rightarrow> (error + unit) \<times> world"
  Heal :: "Database \<Rightarrow> world \<Rightarrow> (error + unit) \<times> world"
  Engine_Status :: "Database \<Rightarrow> world \<Rightarrow> (error + HealthStatus) \<times> world"
  GetEndpoint :: "Database \<Rightarrow> world \<Rightarrow> (error + string) \<times> world"


section \<open>The PostgreSQL engine (package postgres)\<close>

definition postgresPort :: int where "postgresPort = 5432"
definition postgresImage :: string where "postgresImage = ''postgres''"
definition postgresDataPath :: string where "postgresDataPath = ''/var/lib/postgresql/data''"

definition Postgres_Validate :: "Database \<Rightarrow> error + unit" where
  "Postgres_Validate db =
     (if Version (Spec db) = [] then Inl (Error ''version is required for PostgreSQL'')
      else if Mode (Topology (Spec db)) = TopologySharded
      then Inl (Error ''PostgreSQL does not support sharded topology'')
      else if Replicas (Topology (Spec db)) <s 1 then Inl (Error ''replicas must be at least 1'')
      else Inr ())"

text \<open>The PersistentVolumeClaim that \<open>EnsureStorage\<close> builds, before the owner is set.\<close>

definition claimOf :: "Database \<Rightarrow> PersistentVolumeClaim" where
  "claimOf db =
     \<lparr>PVC_Name = Name db @ ''-data'', PVC_Namespace = Namespace db,
      PVC_AccessModes = [''ReadWriteOnce''],
      PVC_Storage = Size (Storage (Spec db)),
      PVC_StorageClassName =
        (if StorageClassName (Storage (Spec db)) \<noteq> []
         then Some (StorageClassName (Storage (Spec db))) else None),
      PVC_VolumeMode =
        (if VolumeMode (Storage (Spec db)) \<noteq> []
         then Some (VolumeMode (Storage (Spec db))) else None),
      PVC_Owner = None\<rparr>"

definition Postgres_EnsureStorage ::
  "Database \<Rightarrow> world \<Rightarrow> (error + PersistentVolumeClaim) \<times> world" where
  "Postgres_EnsureStorage db w =
     (case fault w (MustParse (Size (Storage (Spec db)))) of
        Some e \<Rightarrow>
          (Inl (Panic (''cannot parse '' @ [CHR 0x27] @ Size (Storage (Spec db)) @ [CHR 0x27]
                       @ '': '' @ message e)), w)
      | None \<Rightarrow>
          (let key = (Namespace db, Name db @ ''-data'')
           in case SetControllerRef KPersistentVolumeClaim key w of
                (Some e, w1) \<Rightarrow> (Inl e, w1)
              | (None, w1) \<Rightarrow>
                  CreateOrUpdate KPersistentVolumeClaim pvcs (\<lambda>m v. v\<lparr>pvcs := m\<rparr>) id key
                    ((claimOf db)\<lparr>PVC_Owner := Some (Name db)\<rparr>) (\<lambda>pvc. Inr pvc) w1))"

definition generatePostgresConfig :: "Database \<Rightarrow> string" where
  "generatePostgresConfig db =
     ''# PostgreSQL Configuration'' @ [CHR 0x0A] @ ''max_connections = 100'' @ [CHR 0x0A]
     @ ''shared_buffers = 128MB'' @ [CHR 0x0A]
     @ concat (map (\<lambda>(k, v). k @ '' = '' @ v @ [CHR 0x0A]) (EngineConfig (Spec db)))"

text \<open>The Secret that \<open>ensureCredentials\<close> builds, before the owner is set.\<close>

definition credentialsOf :: "Database \<Rightarrow> Secret" where
  "credentialsOf db =
     \<lparr>Secret_Name = Name db @ ''-credentials'', Secret_Namespace = Namespace db,
      Secret_Labels = None,
      StringData = [''password'' \<mapsto> ''changeme'', ''username'' \<mapsto> ''postgres''],
      Data = Map.empty, Secret_Owner = None\<rparr>"

definition ensureCredentials :: "Database \<Rightarrow> world \<Rightarrow> (error + unit) \<times> world" where
  "ensureCredentials db w =
     (let key = (Namespace db, Name db @ ''-credentials'')
      in case SetControllerRef KSecret key w of
           (Some e, w1) \<Rightarrow> (Inl e, w1)
         | (None, w1) \<Rightarrow>
             (case CreateOrUpdate KSecret secrets (\<lambda>m v. v\<lparr>secrets := m\<rparr>) stored_Secret key
                     ((credentialsOf db)\<lparr>Secret_Owner := Some (Name db)\<rparr>)
                     (\<lambda>secret. if Data secret = Map.empty
                                then Inr (secret\<lparr>StringData := [''password'' \<mapsto> ''changeme'',
                                                              ''username'' \<mapsto> ''postgres'']\<rparr>)
                                else Inr secret) w1 of
                (Inl e, w2) \<Rightarrow> (Inl e, w2)
              | (Inr secret, w2) \<Rightarrow> (Inr (), w2)))"

definition Postgres_EnsureConfig :: "Database \<Rightarrow> world \<Rightarrow> (error + unit) \<times> world" where
  "Postgres_EnsureConfig db w =
     (let key = (Namespace db, Name db @ ''-config'');
          configMap = \<lparr>ConfigMap_Name = Name db @ ''-config'', ConfigMap_Namespace = Namespace db,
                       ConfigMap_Data = Some [''postgresql.conf'' \<mapsto> generatePostgresConfig db],
                       ConfigMap_Owner = None\<rparr>
      in case SetControllerRef KConfigMap key w of
           (Some e, w1) \<Rightarrow> (Inl e, w1)
         | (None, w1) \<Rightarrow>
             (case CreateOrUpdate KConfigMap configmaps (\<lambda>m v. v\<lparr>configmaps := m\<rparr>) id key
                     (configMap\<lparr>ConfigMap_Owner := Some (Name db)\<rparr>)
                     (\<lambda>cm. case ConfigMap_Data cm of
                              None \<Rightarrow> Inl (Panic ''assignment to entry in nil map'')
                            | Some d \<Rightarrow>
                                Inr (cm\<lparr>ConfigMap_Data :=
                                          Some (d(''postgresql.conf'' \<mapsto> generatePostgresConfig db))\<rparr>))
                     w1 of
                (Inl e, w2) \<Rightarrow> (Inl e, w2)
              | (Inr cm, w2) \<Rightarrow> ensureCredentials db w2))"

definition servicePort :: "Database \<Rightarrow> ServicePort" where
  "servicePort db =
     \<lparr>Port_Name = ''postgresql'',
      Port = (if 0 <s Networking_Port (Networking (Spec db))
              then Networking_Port (Networking (Spec db)) else 5432),
      TargetPort = postgresPort, Protocol = ''TCP''\<rparr>"

definition postgresLabels :: "Database \<Rightarrow> (string \<rightharpoonup> string)" where
  "postgresLabels db =
     [''app'' \<mapsto> ''database'', ''engine'' \<mapsto> ''postgresql'', ''instance'' \<mapsto> Name db]"

text \<open>The Service that \<open>EnsureService\<close> builds, before the owner is set.\<close>

definition serviceOf :: "Database \<Rightarrow> Service" where
  "serviceOf db =
     \<lparr>Service_Name = Name db, Service_Namespace = Namespace db,
      Selector = postgresLabels db,
      Service_Type = ServiceType (Networking (Spec db)),
      Ports = [servicePort db], Service_Owner = None\<rparr>"

definition Postgres_EnsureService :: "Database \<Rightarrow> world \<Rightarrow> (error + Service) \<times> world" where
  "Postgres_EnsureService db w =
     (let key = (Namespace db, Name db)
      in case SetControllerRef KService key w of
           (Some e, w1) \<Rightarrow> (Inl e, w1)
         | (None, w1) \<Rightarrow>
             CreateOrUpdate KService services (\<lambda>m v. v\<lparr>services := m\<rparr>) id key
               ((serviceOf db)\<lparr>Service_Owner := Some (Name db)\<rparr>)
               (\<lambda>svc. Inr (svc\<lparr>Selector := postgresLabels db,
                                Service_Type := ServiceType (Networking (Spec db)),
                                Ports := [servicePort db]\<rparr>)) w1)"

text \<open>The StatefulSet that \<open>EnsureWorkload\<close> builds, before the owner is set.\<close>

definition workloadOf :: "Database \<Rightarrow> StatefulSet" where
  "workloadOf db =
     \<lparr>Sts_Name = Name db, Sts_Namespace = Namespace db,
      Sts_Replicas = Replicas (Topology (Spec db)),
      Sts_Selector = postgresLabels db,
      Sts_ServiceName = Name db,
      Sts_Image = postgresImage @ '':'' @ Version (Spec db),
      Sts_Env = [EnvSecretKeyRef ''POSTGRES_PASSWORD'' (Name db @ ''-credentials'') ''password'',
                 EnvValue ''PGDATA'' (postgresDataPath @ ''/pgdata'')],
      Sts_Resources = Resources (Spec db),
      Sts_Owner = None, Sts_ReadyReplicas = 0\<rparr>"

definition Postgres_EnsureWorkload :: "Database \<Rightarrow> world \<Rightarrow> (error + unit) \<times> world" where
  "Postgres_EnsureWorkload db w =
     (let key = (Namespace db, Name db)
      in case SetControllerRef KStatefulSet key w of
           (Some e, w1) \<Rightarrow> (Inl e, w1)
         | (None, w1) \<Rightarrow>
             (case CreateOrUpdate KStatefulSet statefulsets (\<lambda>m v. v\<lparr>statefulsets := m\<rparr>) id key
                     ((workloadOf db)\<lparr>Sts_Owner := Some (Name db)\<rparr>)
                     (\<lambda>sts. Inr (sts\<lparr>Sts_Replicas := Replicas (Topology (Spec db)),
                                      Sts_Image := postgresImage @ '':'' @ Version (Spec db),
                                      Sts_Resources := Resources (Spec db)\<rparr>)) w1 of
                (Inl e, w2) \<Rightarrow> (Inl e, w2)
              | (Inr sts, w2) \<Rightarrow> (Inr (), w2)))"

definition Postgres_GetEndpoint :: "Database \<Rightarrow> string" where
  "Postgres_GetEndpoint db =
     Name db @ ''.'' @ Namespace db @ ''.svc.cluster.local:''
     @ showInt (if 0 <s Networking_Port (Networking (Spec db))
                then sint (Networking_Port (Networking (Spec db))) else postgresPort)"

text \<open>
  \<open>NewPostgresEngine()\<close>. \<open>Scale\<close> and \<open>Upgrade\<close> are \<open>EnsureWorkload\<close>; \<open>Backup\<close>,
  \<open>Restore\<close> and \<open>RotateAuth\<close> return their error; \<open>Heal\<close> does nothing.
\<close>

definition PostgresEngine :: Engine where
  "PostgresEngine =
     \<lparr>Validate = Postgres_Validate,
      EnsureStorage = Postgres_EnsureStorage,
      EnsureConfig = Postgres_EnsureConfig,
      EnsureService = Postgres_EnsureService,
      EnsureWorkload = Postgres_EnsureWorkload,
      Scale = Postgres_EnsureWorkload,
      Upgrade = Postgres_EnsureWorkload,
      Engine_Backup = (\<lambda>db w. (Inl (Error ''backup not yet implemented''), w)),
      Engine_Restore = (\<lambda>db w. (Inl (Error ''restore not yet implemented''), w)),
      RotateAuth = (\<lambda>db w. (Inl (Error ''credential rotation not yet implemented''), w)),
      Heal = (\<lambda>db w. (Inr (), w)),
      Engine_Status = (\<lambda>db w. (Inr \<lparr>Health_Status = ''Unknown'',
                                      Health_Message = ''Status checking not yet implemented'',
                                      Health_LastCheckTime = None\<rparr>, w)),
      GetEndpoint = (\<lambda>db w. (Inr (Postgres_GetEndpoint db), w))\<rparr>"

text \<open>\<open>DefaultEngineFactory.GetEngine\<close>.\<close>

definition GetEngine :: "Database \<Rightarrow> error + Engine" where
  "GetEngine db =
     (if Engine (Spec db) = EnginePostgreSQL then Inr PostgresEngine
      else if Engine (Spec db) = EngineMongoDB then Inl (Error ''MongoDB engine not yet implemented'')
      else if Engine (Spec db) = EngineRedis then Inl (Error ''Redis engine not yet implemented'')
      else if Engine (Spec db) = EngineElasticsearch
      then Inl (Error ''Elasticsearch engine not yet implemented'')
      else if Engine (Spec db) = EngineSQLite then Inl (Error ''SQLite engine not yet implemented'')
      else Inl (Error (''unsupported database engine: '' @ Engine (Spec db))))"

record DatabaseReconciler =
  EngineFactory :: "Database \<Rightarrow> error + Engine"


section \<open>The reconciler (controllers)\<close>

record Result =
  Requeue :: bool
  RequeueAfter :: Duration

definition noRequeue :: Result where
  "noRequeue = \<lparr>Requeue = False, RequeueAfter = 0\<rparr>"

definition after :: "int \<Rightarrow> Result" where
  "after seconds = \<lparr>Requeue = False, RequeueAfter = seconds * nsPerSecond\<rparr>"

text \<open>
  What one call of \<open>Reconcile\<close> leaves: the pair it returns, the Database object it
  held in memory when it returned (\<open>None\<close> if it had none), and the platform. When an
  engine method panics, the panic is the error of the outcome.
\<close>

record outcome =
  res :: Result
  err :: "error option"
  obj :: "Database option"
  post :: world

definition ret :: "Result \<Rightarrow> error option \<Rightarrow> Database \<Rightarrow> world \<Rightarrow> outcome" where
  "ret r e db w = \<lparr>res = r, err = e, obj = Some db, post = w\<rparr>"

definition engineCall :: "engineMethod \<Rightarrow> world \<Rightarrow> world" where
  "engineCall m w = logged (EngineCall m) w"

text \<open>
  What a call of an engine method comes to for \<open>Reconcile\<close>: a panic, which leaves
  \<open>Reconcile\<close> at once, an error, or a value. The call is recorded before the method runs.
\<close>

datatype 'a answer = Panics error | Fails error | Gives 'a

fun isPanic :: "error \<Rightarrow> bool" where
  "isPanic (Panic m) = True"
| "isPanic e = False"

definition callEngine ::
  "engineMethod \<Rightarrow> (world \<Rightarrow> (error + 'a) \<times> world) \<Rightarrow> world \<Rightarrow> 'a answer \<times> world" where
  "callEngine m f w =
     (case f (engineCall m w) of
        (Inl e, w1) \<Rightarrow> if isPanic e then (Panics e, w1) else (Fails e, w1)
      | (Inr x, w1) \<Rightarrow> (Gives x, w1))"

definition removeFinalizerAndUpdate :: "Database \<Rightarrow> world \<Rightarrow> outcome" where
  "removeFinalizerAndUpdate db w =
     (let db1 = RemoveFinalizer db databaseFinalizer;
          (e, db2, w1) = client_Update db1 w
      in ret noRequeue e db2 w1)"

definition handleDeletion :: "DatabaseReconciler \<Rightarrow> Database \<Rightarrow> world \<Rightarrow> outcome" where
  "handleDeletion r db w =
     (if ContainsFinalizer db databaseFinalizer then
        (let db1 = updatePhase db PhaseDeleting;
             (statusErr, db2, w1) = Status_Update db1 w
         in if DeletionPolicy (Lifecycle (Spec db2)) = DeletionPolicySnapshot then
              (case EngineFactory r db2 of
                 Inl e \<Rightarrow> removeFinalizerAndUpdate db2 w1
               | Inr engine \<Rightarrow>
                   (case callEngine MBackup (Engine_Backup engine db2) w1 of
                      (Panics e, w2) \<Rightarrow> ret noRequeue (Some e) db2 w2
                    | (Fails e, w2) \<Rightarrow> removeFinalizerAndUpdate db2 w2
                    | (Gives name, w2) \<Rightarrow> removeFinalizerAndUpdate db2 w2))
            else if DeletionPolicy (Lifecycle (Spec db2)) = DeletionPolicyRetain then
              (let db3 = RemoveFinalizer db2 databaseFinalizer;
                   (e, db4, w2) = client_Update db3 w1
               in ret noRequeue e db4 w2)
            else removeFinalizerAndUpdate db2 w1)
      else ret noRequeue None db w)"

text \<open>\<open>updateWorkloadStatus\<close>: the StatefulSet first, then the Deployment.\<close>

definition updateWorkloadStatus :: "Database \<Rightarrow> world \<Rightarrow> error option \<times> Database \<times> world" where
  "updateWorkloadStatus db w =
     (let key = (Namespace db, Name db)
      in case client_Get statefulsets KStatefulSet key w of
           (Inr sts, w1) \<Rightarrow>
             (None, db\<lparr>Status := (Status db)\<lparr>ReadyReplicas := Sts_ReadyReplicas sts\<rparr>\<rparr>, w1)
         | (Inl e, w1) \<Rightarrow>
             (case client_Get deployments KDeployment key w1 of
                (Inr n, w2) \<Rightarrow> (None, db\<lparr>Status := (Status db)\<lparr>ReadyReplicas := n\<rparr>\<rparr>, w2)
              | (Inl e', w2) \<Rightarrow> (Some e', db, w2)))"

text \<open>\<open>ensureBackupCronJob\<close> has no body but \<open>return nil\<close>.\<close>

definition ensureBackupCronJob :: "Database \<Rightarrow> world \<Rightarrow> error option \<times> world" where
  "ensureBackupCronJob db w = (None, w)"

text \<open>
  \<open>handleCredentialRotation\<close>; a panic of \<open>RotateAuth\<close> is handed on as the error it
  returns, for \<open>Reconcile\<close> to leave with.
\<close>

definition handleCredentialRotation ::
  "Engine \<Rightarrow> Database \<Rightarrow> world \<Rightarrow> error option \<times> Database \<times> world" where
  "handleCredentialRotation engine db w =
     (if (case RotationStatus (Status db) of
            None \<Rightarrow> False
          | Some rs \<Rightarrow> (case NextRotation rs of None \<Rightarrow> False | Some next \<Rightarrow> clock w < next))
      then (None, db, w)
      else
        (case callEngine MRotateAuth (RotateAuth engine db) w of
           (Panics e, w1) \<Rightarrow> (Some e, db, w1)
         | (Fails e, w1) \<Rightarrow> (Some e, db, w1)
         | (Gives u, w1) \<Rightarrow>
             (let rs = (case RotationStatus (Status db) of
                          None \<Rightarrow> \<lparr>Rotation_Phase = [], LastRotation = None,
                                   NextRotation = None, JobName = []\<rparr>
                        | Some rs \<Rightarrow> rs)
              in (None,
                  db\<lparr>Status := (Status db)\<lparr>RotationStatus :=
                        Some (rs\<lparr>LastRotation := Some (clock w)\<rparr>)\<rparr>\<rparr>,
                  w1))))"

text \<open>
  \<open>Reconcile\<close> after the pause check, in consecutive parts. A part that \<open>Reconcile\<close>
  can return from answers \<open>Inl\<close> with the outcome when it does, and \<open>Inr\<close> with the
  object and the platform when control falls through to the next part.
\<close>

definition failValidation ::
  "string \<Rightarrow> error \<Rightarrow> Database \<Rightarrow> world \<Rightarrow> outcome" where
  "failValidation reason e db w =
     (let db1 = setCondition (clock w) db ConditionTypeValidated ConditionFalse reason (message e);
          db2 = updatePhase db1 PhaseFailed;
          (statusErr, db3, w1) = Status_Update db2 w
      in ret noRequeue (Some e) db3 w1)"

definition Reconcile_validate ::
  "DatabaseReconciler \<Rightarrow> Database \<Rightarrow> world \<Rightarrow> outcome + Engine \<times> Database \<times> world" where
  "Reconcile_validate r db w =
     (case validateSpec db of
        Some e \<Rightarrow> Inl (failValidation ''ValidationFailed'' e db w)
      | None \<Rightarrow>
          (let db1 = setCondition (clock w) db ConditionTypeValidated ConditionTrue
                       ''ValidationSucceeded'' ''Spec validation passed''
           in case EngineFactory r db1 of
                Inl e \<Rightarrow>
                  (let db2 = updatePhase db1 PhaseFailed;
                       (statusErr, db3, w1) = Status_Update db2 w
                   in Inl (ret noRequeue (Some e) db3 w1))
              | Inr engine \<Rightarrow>
                  (case callEngine MValidate (\<lambda>v. (Validate engine db1, v)) w of
                     (Panics e, w1) \<Rightarrow> Inl (ret noRequeue (Some e) db1 w1)
                   | (Fails e, w1) \<Rightarrow> Inl (failValidation ''EngineValidationFailed'' e db1 w1)
                   | (Gives u, w1) \<Rightarrow>
                       Inr (engine,
                            (if Phase (Status db1) = [] \<or> Phase (Status db1) = PhasePending
                             then updatePhase db1 PhaseProvisioning else db1),
                            w1))))"

definition Reconcile_workload :: "Engine \<Rightarrow> Database \<Rightarrow> world \<Rightarrow> outcome + Database \<times> world" where
  "Reconcile_workload engine db w =
     (case callEngine MEnsureWorkload (EnsureWorkload engine db) w of
        (Panics e, w1) \<Rightarrow> Inl (ret noRequeue (Some e) db w1)
      | (Fails e, w1) \<Rightarrow> Inl (ret (after 30) (Some e) db w1)
      | (Gives u, w1) \<Rightarrow>
          Inr (setCondition (clock w) db ConditionTypeProvisioned ConditionTrue
                 ''Provisioned'' ''Database is provisioned'', w1))"

definition Reconcile_restore :: "Engine \<Rightarrow> Database \<Rightarrow> world \<Rightarrow> outcome + Database \<times> world" where
  "Reconcile_restore engine db w =
     (case callEngine MGetEndpoint (GetEndpoint engine db) w of
        (Panics e, w1) \<Rightarrow> Inl (ret noRequeue (Some e) db w1)
      | (answer, w1) \<Rightarrow>
          (let db1 = (case answer of
                        Gives endpoint \<Rightarrow> db\<lparr>Status := (Status db)\<lparr>Endpoint := endpoint\<rparr>\<rparr>
                      | _ \<Rightarrow> db)
           in if Restore (Spec db1) \<noteq> None \<and> Phase (Status db1) \<noteq> PhaseReady
              then (case callEngine MRestore (Engine_Restore engine db1) w1 of
                      (Panics e, w2) \<Rightarrow> Inl (ret noRequeue (Some e) db1 w2)
                    | (Fails e, w2) \<Rightarrow> Inl (ret (after 60) (Some e) db1 w2)
                    | (Gives u, w2) \<Rightarrow> Reconcile_workload engine db1 w2)
              else Reconcile_workload engine db1 w1))"

definition Reconcile_ensure :: "Engine \<Rightarrow> Database \<Rightarrow> world \<Rightarrow> outcome + Database \<times> world" where
  "Reconcile_ensure engine db w =
     (case callEngine MEnsureStorage (EnsureStorage engine db) w of
        (Panics e, w1) \<Rightarrow> Inl (ret noRequeue (Some e) db w1)
      | (Fails e, w1) \<Rightarrow>
          (let db1 = setCondition (clock w) db ConditionTypeStorageReady ConditionFalse
                       ''StorageFailed'' (message e);
               (statusErr, db2, w2) = Status_Update db1 w1
           in Inl (ret (after 30) (Some e) db2 w2))
      | (Gives pvc, w1) \<Rightarrow>
          (let db1 = setCondition (clock w) db ConditionTypeStorageReady ConditionTrue
                       ''StorageReady'' ''Storage is ready''
           in case callEngine MEnsureConfig (EnsureConfig engine db1) w1 of
                (Panics e, w2) \<Rightarrow> Inl (ret noRequeue (Some e) db1 w2)
              | (Fails e, w2) \<Rightarrow> Inl (ret (after 30) (Some e) db1 w2)
              | (Gives u, w2) \<Rightarrow>
                  (case callEngine MEnsureService (EnsureService engine db1) w2 of
                     (Panics e, w3) \<Rightarrow> Inl (ret noRequeue (Some e) db1 w3)
                   | (Fails e, w3) \<Rightarrow> Inl (ret (after 30) (Some e) db1 w3)
                   | (Gives svc, w3) \<Rightarrow> Reconcile_restore engine db1 w3)))"

definition Reconcile_upgrade :: "Engine \<Rightarrow> Database \<Rightarrow> world \<Rightarrow> outcome + Database \<times> world" where
  "Reconcile_upgrade engine db w =
     (if CurrentVersion (Status db) \<noteq> [] \<and> CurrentVersion (Status db) \<noteq> Version (Spec db)
      then (case checkMaintenanceWindow (clock w) db of
              Some e \<Rightarrow> Inl (ret (after (5 * 60)) None db w)
            | None \<Rightarrow>
                (let db1 = updatePhase db PhaseUpgrading;
                     db2 = setCondition (clock w) db1 ConditionTypeUpgrading ConditionTrue
                             ''Upgrading'' ''Database is being upgraded''
                 in case callEngine MUpgrade (Upgrade engine db2) w of
                      (Panics e, w1) \<Rightarrow> Inl (ret noRequeue (Some e) db2 w1)
                    | (Fails e, w1) \<Rightarrow>
                        Inl (ret (after 60) (Some e)
                               (setCondition (clock w) db2 ConditionTypeUpgrading ConditionFalse
                                  ''UpgradeFailed'' (message e)) w1)
                    | (Gives u, w1) \<Rightarrow>
                        Inr (setCondition (clock w) db2 ConditionTypeUpgrading ConditionFalse
                               ''UpgradeComplete'' ''Upgrade completed successfully'', w1)))
      else Inr (db, w))"

definition Reconcile_backup :: "Database \<Rightarrow> world \<Rightarrow> Database \<times> world" where
  "Reconcile_backup db w =
     (if Backup_Enabled (Backup (Spec db))
      then (case ensureBackupCronJob db w of
              (Some e, w1) \<Rightarrow>
                (setCondition (clock w) db ConditionTypeBackupConfigured ConditionFalse
                   ''BackupFailed'' (message e), w1)
            | (None, w1) \<Rightarrow>
                (setCondition (clock w) db ConditionTypeBackupConfigured ConditionTrue
                   ''BackupConfigured'' ''Backup is configured'', w1))
      else (db, w))"

definition Reconcile_rotation :: "Engine \<Rightarrow> Database \<Rightarrow> world \<Rightarrow> outcome + Database \<times> world" where
  "Reconcile_rotation engine db w =
     (if (case RotationPolicy (Auth (Spec db)) of None \<Rightarrow> False | Some p \<Rightarrow> Rotation_Enabled p)
      then (case handleCredentialRotation engine db w of
              (None, db1, w1) \<Rightarrow> Inr (db1, w1)
            | (Some e, db1, w1) \<Rightarrow>
                if isPanic e then Inl (ret noRequeue (Some e) db1 w1) else Inr (db1, w1))
      else Inr (db, w))"

definition Reconcile_heal :: "Engine \<Rightarrow> Database \<Rightarrow> world \<Rightarrow> outcome + Database \<times> world" where
  "Reconcile_heal engine db w =
     (case callEngine MHeal (Heal engine db) w of
        (Panics e, w1) \<Rightarrow> Inl (ret noRequeue (Some e) db w1)
      | (healed, w1) \<Rightarrow>
          (case callEngine MStatus (Engine_Status engine db) w1 of
             (Panics e, w2) \<Rightarrow> Inl (ret noRequeue (Some e) db w2)
           | (Fails e, w2) \<Rightarrow> Inr (db, w2)
           | (Gives health, w2) \<Rightarrow> Inr (db\<lparr>Status := (Status db)\<lparr>Health := health\<rparr>\<rparr>, w2)))"

definition Reconcile_ready :: "Database \<Rightarrow> world \<Rightarrow> outcome" where
  "Reconcile_ready db w =
     (let db1 = db\<lparr>Status := (Status db)\<lparr>CurrentVersion := Version (Spec db),
                                          ObservedGeneration := Generation db,
                                          LastReconcileTime := Some (clock w)\<rparr>\<rparr>;
          db2 = (if ReadyReplicas (Status db1) = Replicas (Topology (Spec db1))
                 then setCondition (clock w) (updatePhase db1 PhaseReady) ConditionTypeReady
                        ConditionTrue ''Ready'' ''Database is ready''
                 else db1)
      in case Status_Update db2 w of
           (Some e, db3, w1) \<Rightarrow> ret noRequeue (Some e) db3 w1
         | (None, db3, w1) \<Rightarrow> ret (after (5 * 60)) None db3 w1)"

definition Reconcile_finish :: "Engine \<Rightarrow> Database \<Rightarrow> world \<Rightarrow> outcome" where
  "Reconcile_finish engine db w =
     (let (workloadErr, db1, w1) = updateWorkloadStatus db w;
          (db2, w2) = Reconcile_backup db1 w1
      in case Reconcile_rotation engine db2 w2 of
           Inl out \<Rightarrow> out
         | Inr (db3, w3) \<Rightarrow>
             (case Reconcile_heal engine db3 w3 of
                Inl out \<Rightarrow> out
              | Inr (db4, w4) \<Rightarrow> Reconcile_ready db4 w4))"

definition Reconcile_main :: "DatabaseReconciler \<Rightarrow> Database \<Rightarrow> world \<Rightarrow> outcome" where
  "Reconcile_main r db w =
     (case Reconcile_validate r db w of
        Inl out \<Rightarrow> out
      | Inr (engine, db1, w1) \<Rightarrow>
          (case Reconcile_ensure engine db1 w1 of
             Inl out \<Rightarrow> out
           | Inr (db2, w2) \<Rightarrow>
               (case Reconcile_upgrade engine db2 w2 of
                  Inl out \<Rightarrow> out
                | Inr (db3, w3) \<Rightarrow> Reconcile_finish engine db3 w3)))"

definition Reconcile :: "DatabaseReconciler \<Rightarrow> ObjectKey \<Rightarrow> world \<Rightarrow> outcome" where
  "Reconcile r req w =
     (case client_Get databases KDatabase req w of
        (Inl e, w1) \<Rightarrow>
          \<lparr>res = noRequeue, err = (if IsNotFound e then None else Some e), obj = None, post = w1\<rparr>
      | (Inr db, w1) \<Rightarrow>
          if DeletionTimestamp db \<noteq> None then handleDeletion r db w1
          else if \<not> ContainsFinalizer db databaseFinalizer then
            (let db1 = AddFinalizer db databaseFinalizer
             in case client_Update db1 w1 of
                  (Some e, db2, w2) \<Rightarrow> ret noRequeue (Some e) db2 w2
                | (None, db2, w2) \<Rightarrow> ret \<lparr>Requeue = True, RequeueAfter = 0\<rparr> None db2 w2)
          else if Paused (Lifecycle (Spec db)) then
            ret noRequeue None (updatePhase db PhasePaused) w1
          else Reconcile_main r db w1)"


section \<open>The backup manager (package backup)\<close>

definition getBackupImage :: "Database \<Rightarrow> string" where
  "getBackupImage db =
     (if Engine (Spec db) = EnginePostgreSQL then ''postgres:'' @ Version (Spec db)
      else if Engine (Spec db) = EngineMongoDB then ''mongo:'' @ Version (Spec db)
      else if Engine (Spec db) = EngineRedis then ''redis:'' @ Version (Spec db)
      else if Engine (Spec db) = EngineElasticsearch then ''elasticsearch:'' @ Version (Spec db)
      else ''busybox:latest'')"

text \<open>
  \<open>CreateBackupCronJob\<close>. Of the pod template the image is kept; its command, environment
  and volumes play no part in whether and under which name the CronJob is created.
\<close>

definition CreateBackupCronJob :: "Database \<Rightarrow> world \<Rightarrow> (error + CronJob) \<times> world" where
  "CreateBackupCronJob db w =
     (let cronJobName = Name db @ ''-backup'';
          cronJob = \<lparr>CronJob_Name = cronJobName, CronJob_Namespace = Namespace db,
                     CronJob_Labels = [''app'' \<mapsto> ''database'', ''instance'' \<mapsto> Name db,
                                       ''job-type'' \<mapsto> ''backup''],
                     CronJob_Schedule = Backup_Schedule (Backup (Spec db)),
                     CronJob_Image = getBackupImage db,
                     SuccessfulJobsHistoryLimit = Backup_Retention (Backup (Spec db)),
                     FailedJobsHistoryLimit = 3,
                     CronJob_Owner = None\<rparr>
      in case SetControllerRef KCronJob (Namespace db, cronJobName) w of
           (Some e, w1) \<Rightarrow> (Inl e, w1)
         | (None, w1) \<Rightarrow>
             (let owned = cronJob\<lparr>CronJob_Owner := Some (Name db)\<rparr>
              in case Create_CronJob owned w1 of
                   (Some e, w2) \<Rightarrow> (Inl e, w2)
                 | (None, w2) \<Rightarrow> (Inr owned, w2)))"


section \<open>The rotation manager (package auth)\<close>

abbreviation RotationPhaseIdle :: string where "RotationPhaseIdle \<equiv> ''Idle''"
abbreviation RotationPhaseCreatingNew :: string where "RotationPhaseCreatingNew \<equiv> ''CreatingNew''"
abbreviation RotationPhaseCutover :: string where "RotationPhaseCutover \<equiv> ''Cutover''"
abbreviation RotationPhaseRevoking :: string where "RotationPhaseRevoking \<equiv> ''Revoking''"
abbreviation RotationPhaseComplete :: string where "RotationPhaseComplete \<equiv> ''Complete''"

definition Unix :: "Time \<Rightarrow> int" where
  "Unix t = t div nsPerSecond"

definition buildRotationCommand :: "Database \<Rightarrow> string \<Rightarrow> string list" where
  \<open>buildRotationCommand db phase =
     (if Engine (Spec db) = EnginePostgreSQL \<and> phase = RotationPhaseCreatingNew then
        [''/bin/sh'', ''-c'',
         ''psql -h $DB_HOST -U $OLD_USERNAME -c "CREATE USER $NEW_USERNAME WITH PASSWORD '$NEW_PASSWORD'; GRANT ALL PRIVILEGES ON DATABASE postgres TO $NEW_USERNAME;"'']
      else if Engine (Spec db) = EnginePostgreSQL \<and> phase = RotationPhaseRevoking then
        [''/bin/sh'', ''-c'',
         ''psql -h $DB_HOST -U $NEW_USERNAME -c "REVOKE ALL PRIVILEGES ON DATABASE postgres FROM $OLD_USERNAME; DROP USER $OLD_USERNAME;"'']
      else [''/bin/sh'', ''-c'', ''echo 'Rotation not implemented'' @ [CHR 0x27]])\<close>

definition buildRotationEnv :: "Database \<Rightarrow> string \<Rightarrow> EnvVar list" where
  "buildRotationEnv db phase =
     (let env = [EnvValue ''DB_HOST'' (Endpoint (Status db))]
      in if phase = RotationPhaseCreatingNew then
           env @ [EnvSecretKeyRef ''OLD_USERNAME'' (Name db @ ''-credentials'') ''username'',
                  EnvSecretKeyRef ''NEW_USERNAME'' (Name db @ ''-credentials-new'') ''username'',
                  EnvSecretKeyRef ''NEW_PASSWORD'' (Name db @ ''-credentials-new'') ''password'']
         else if phase = RotationPhaseRevoking then
           env @ [EnvSecretKeyRef ''OLD_USERNAME'' (Name db @ ''-credentials-old'') ''username'',
                  EnvSecretKeyRef ''NEW_USERNAME'' (Name db @ ''-credentials'') ''username'']
         else env)"

definition getRotationImage :: "Database \<Rightarrow> string" where
  "getRotationImage db =
     (if Engine (Spec db) = EnginePostgreSQL then ''postgres:'' @ Version (Spec db)
      else if Engine (Spec db) = EngineMongoDB then ''mongo:'' @ Version (Spec db)
      else if Engine (Spec db) = EngineRedis then ''redis:'' @ Version (Spec db)
      else ''busybox:latest'')"

definition createRotationJob :: "Time \<Rightarrow> Database \<Rightarrow> string \<Rightarrow> Job" where
  "createRotationJob now db phase =
     \<lparr>Job_Name = Name db @ ''-rotation-'' @ phase @ ''-'' @ showInt (Unix now),
      Job_Namespace = Namespace db,
      Job_Labels = [''app'' \<mapsto> ''database'', ''instance'' \<mapsto> Name db, ''rotation'' \<mapsto> phase],
      Job_Image = getRotationImage db,
      Job_Command = buildRotationCommand db phase,
      Job_Env = buildRotationEnv db phase,
      Job_BackoffLimit = 3,
      Job_Owner = None,
      Succeeded = 0,
      Failed = 0\<rparr>"

text \<open>\<open>syncToConsul\<close> has no body but the return of its error.\<close>

definition syncToConsul :: "Database \<Rightarrow> string \<Rightarrow> world \<Rightarrow> error option \<times> world" where
  "syncToConsul db password w = (Some (Error ''Consul integration not yet implemented''), w)"

text \<open>
  \<open>generateSecurePassword\<close>: \<open>rand.Read\<close> may fail; the string it makes of the random
  bytes otherwise is the parameter \<open>password\<close>.
\<close>

definition generateSecurePassword :: "string \<Rightarrow> world \<Rightarrow> (error + string) \<times> world" where
  "generateSecurePassword password w =
     (case fault w RandRead of
        Some e \<Rightarrow> (Inl e, logged RandRead w)
      | None \<Rightarrow> (Inr password, logged RandRead w))"

definition setRotation :: "Database \<Rightarrow> RotationStatus \<Rightarrow> Database" where
  "setRotation db rs = db\<lparr>Status := (Status db)\<lparr>RotationStatus := Some rs\<rparr>\<rparr>"

definition nilDereference :: error where
  "nilDereference = Panic ''runtime error: invalid memory address or nil pointer dereference''"

definition startRotation :: "string \<Rightarrow> Database \<Rightarrow> world \<Rightarrow> error option \<times> Database \<times> world" where
  "startRotation password db w =
     (let rs = (case RotationStatus (Status db) of
                  None \<Rightarrow> \<lparr>Rotation_Phase = [], LastRotation = None,
                           NextRotation = None, JobName = []\<rparr>
                | Some rs \<Rightarrow> rs);
          rs1 = rs\<lparr>Rotation_Phase := RotationPhaseCreatingNew\<rparr>;
          db1 = setRotation db rs1
      in case generateSecurePassword password w of
           (Inl e, w1) \<Rightarrow> (Some (Wrapped ''failed to generate new password'' e), db1, w1)
         | (Inr newPassword, w1) \<Rightarrow>
             (let newSecretName = Name db @ ''-credentials-new'';
                  newSecret = \<lparr>Secret_Name = newSecretName, Secret_Namespace = Namespace db,
                               Secret_Labels = Some [''app'' \<mapsto> ''database'',
                                                     ''instance'' \<mapsto> Name db,
                                                     ''rotation'' \<mapsto> ''new''],
                               StringData = [''password'' \<mapsto> newPassword,
                                             ''username'' \<mapsto> ''postgres''],
                               Data = Map.empty, Secret_Owner = None\<rparr>
              in case SetControllerRef KSecret (Namespace db, newSecretName) w1 of
                   (Some e, w2) \<Rightarrow> (Some e, db1, w2)
                 | (None, w2) \<Rightarrow>
                     (case Create_Secret (newSecret\<lparr>Secret_Owner := Some (Name db)\<rparr>) w2 of
                        (Some e, w3) \<Rightarrow>
                          (Some (Wrapped ''failed to create new credentials secret'' e), db1, w3)
                      | (None, w3) \<Rightarrow>
                          (case (if (case Consul (Auth (Spec db1)) of
                                       None \<Rightarrow> False | Some c \<Rightarrow> Consul_Enabled c)
                                 then syncToConsul db1 newPassword w3 else (None, w3)) of
                             (Some e, w4) \<Rightarrow>
                               (Some (Wrapped ''failed to sync credentials to Consul'' e), db1, w4)
                           | (None, w4) \<Rightarrow>
                               (let job = createRotationJob (clock w) db1 RotationPhaseCreatingNew
                                in case SetControllerRef KJob (Job_Namespace job, Job_Name job) w4 of
                                     (Some e, w5) \<Rightarrow> (Some e, db1, w5)
                                   | (None, w5) \<Rightarrow>
                                       (case Create_Job (job\<lparr>Job_Owner := Some (Name db)\<rparr>) w5 of
                                          (Some e, w6) \<Rightarrow>
                                            (Some (Wrapped ''failed to create rotation job'' e),
                                             db1, w6)
                                        | (None, w6) \<Rightarrow>
                                            (None,
                                             setRotation db1 (rs1\<lparr>JobName := Job_Name job\<rparr>),
                                             w6)))))))"

definition checkCreationJob :: "Database \<Rightarrow> world \<Rightarrow> error option \<times> Database \<times> world" where
  "checkCreationJob db w =
     (case RotationStatus (Status db) of
        None \<Rightarrow> (Some nilDereference, db, w)
      | Some rs \<Rightarrow>
          if JobName rs = [] then (Some (Error ''no job name in rotation status''), db, w)
          else (case client_Get jobs KJob (Namespace db, JobName rs) w of
                  (Inl e, w1) \<Rightarrow> (Some e, db, w1)
                | (Inr job, w1) \<Rightarrow>
                    if 0 <s Succeeded job
                    then (None, setRotation db (rs\<lparr>Rotation_Phase := RotationPhaseCutover\<rparr>), w1)
                    else if 0 <s Failed job then (Some (Error ''rotation job failed''), db, w1)
                    else (None, db, w1)))"


definition performCutover :: "Database \<Rightarrow> world \<Rightarrow> error option \<times> Database \<times> world" where
  "performCutover db w =
     (let newSecretName = Name db @ ''-credentials-new''
      in case client_Get secrets KSecret (Namespace db, newSecretName) w of
           (Inl e, w1) \<Rightarrow> (Some (Wrapped ''failed to get new credentials'' e), db, w1)
         | (Inr newSecret, w1) \<Rightarrow>
             (let oldSecretName = Name db @ ''-credentials'';
                  backedUp =
                    (case client_Get secrets KSecret (Namespace db, oldSecretName) w1 of
                       (Inl e, w2) \<Rightarrow> (None, w2)
                     | (Inr oldSecret, w2) \<Rightarrow>
                         (case Secret_Labels oldSecret of
                            None \<Rightarrow> (Some (Panic ''assignment to entry in nil map''), w2)
                          | Some labels \<Rightarrow>
                              (let backupSecret =
                                     oldSecret\<lparr>Secret_Name := Name db @ ''-credentials-old'',
                                               Secret_Labels := Some (labels(''rotation'' \<mapsto> ''old''))\<rparr>
                               in case Create_Secret backupSecret w2 of
                                    (Some e, w3) \<Rightarrow>
                                      (Some (Wrapped ''failed to backup old credentials'' e), w3)
                                  | (None, w3) \<Rightarrow>
                                      (case Delete_Secret (Secret_Namespace oldSecret,
                                                           Secret_Name oldSecret) w3 of
                                         (Some e, w4) \<Rightarrow>
                                           (Some (Wrapped ''failed to delete old credentials'' e), w4)
                                       | (None, w4) \<Rightarrow> (None, w4)))))
              in case backedUp of
                   (Some e, w2) \<Rightarrow> (Some e, db, w2)
                 | (None, w2) \<Rightarrow>
                     (let primarySecret =
                            \<lparr>Secret_Name = oldSecretName, Secret_Namespace = Namespace db,
                             Secret_Labels = Some [''app'' \<mapsto> ''database'',
                                                   ''instance'' \<mapsto> Name db,
                                                   ''rotation'' \<mapsto> ''current''],
                             StringData = Map.empty, Data = Data newSecret,
                             Secret_Owner = None\<rparr>
                      in case SetControllerRef KSecret (Namespace db, oldSecretName) w2 of
                           (Some e, w3) \<Rightarrow> (Some e, db, w3)
                         | (None, w3) \<Rightarrow>
                             (case Create_Secret (primarySecret\<lparr>Secret_Owner := Some (Name db)\<rparr>) w3 of
                                (Some e, w4) \<Rightarrow>
                                  (Some (Wrapped ''failed to create primary credentials'' e), db, w4)
                              | (None, w4) \<Rightarrow>
                                  (case Delete_Secret (Secret_Namespace newSecret,
                                                       Secret_Name newSecret) w4 of
                                     (Some e, w5) \<Rightarrow>
                                       (Some (Wrapped ''failed to delete new credentials secret'' e),
                                        db, w5)
                                   | (None, w5) \<Rightarrow>
                                       (case RotationStatus (Status db) of
                                          None \<Rightarrow> (Some nilDereference, db, w5)
                                        | Some rs \<Rightarrow>
                                            (let rs1 = rs\<lparr>Rotation_Phase := RotationPhaseRevoking\<rparr>;
                                                 db1 = setRotation db rs1;
                                                 job = createRotationJob (clock w) db1
                                                         RotationPhaseRevoking
                                             in case SetControllerRef KJob
                                                       (Job_Namespace job, Job_Name job) w5 of
                                                  (Some e, w6) \<Rightarrow> (Some e, db1, w6)
                                                | (None, w6) \<Rightarrow>
                                                    (case Create_Job
                                                            (job\<lparr>Job_Owner := Some (Name db)\<rparr>) w6 of
                                                       (Some e, w7) \<Rightarrow>
                                                         (Some (Wrapped
                                                                  ''failed to create revocation job'' e),
                                                          db1, w7)
                                                     | (None, w7) \<Rightarrow>
                                                         (None,
                                                          setRotation db1
                                                            (rs1\<lparr>JobName := Job_Name job\<rparr>),
                                                          w7)))))))))"

definition revokeOldCredentials :: "Database \<Rightarrow> world \<Rightarrow> error option \<times> Database \<times> world" where
  "revokeOldCredentials db w =
     (case RotationStatus (Status db) of
        None \<Rightarrow> (Some nilDereference, db, w)
      | Some rs \<Rightarrow>
          if JobName rs = [] then (Some (Error ''no job name in rotation status''), db, w)
          else (case client_Get jobs KJob (Namespace db, JobName rs) w of
                  (Inl e, w1) \<Rightarrow> (Some e, db, w1)
                | (Inr job, w1) \<Rightarrow>
                    if 0 <s Succeeded job
                    then (let (deleteErr, w2) =
                                Delete_Secret (Namespace db, Name db @ ''-credentials-old'') w1
                          in (None,
                              setRotation db (rs\<lparr>Rotation_Phase := RotationPhaseComplete\<rparr>), w2))
                    else if 0 <s Failed job then (Some (Error ''revocation job failed''), db, w1)
                    else (None, db, w1)))"

definition completeRotation :: "Database \<Rightarrow> world \<Rightarrow> error option \<times> Database \<times> world" where
  "completeRotation db w =
     (case RotationStatus (Status db) of
        None \<Rightarrow> (Some nilDereference, db, w)
      | Some rs \<Rightarrow>
          (None,
           setRotation db (rs\<lparr>Rotation_Phase := RotationPhaseIdle,
                               LastRotation := Some (clock w),
                               JobName := []\<rparr>),
           w))"

text \<open>The phase that \<open>RotateCredentials\<close> reads before its switch.\<close>

definition currentPhase :: "Database \<Rightarrow> string" where
  "currentPhase db =
     (case RotationStatus (Status db) of None \<Rightarrow> RotationPhaseIdle | Some rs \<Rightarrow> Rotation_Phase rs)"

definition RotateCredentials ::
  "string \<Rightarrow> Database \<Rightarrow> world \<Rightarrow> error option \<times> Database \<times> world" where
  "RotateCredentials password db w =
     (let phase = currentPhase db
      in if phase = RotationPhaseIdle \<or> phase = [] then startRotation password db w
         else if phase = RotationPhaseCreatingNew then checkCreationJob db w
         else if phase = RotationPhaseCutover then performCutover db w
         else if phase = RotationPhaseRevoking then revokeOldCredentials db w
         else if phase = RotationPhaseComplete then completeRotation db w
         else (Some (Error (''unknown rotation phase: '' @ phase)), db, w))"


section \<open>Runs of the rotation manager\<close>

text \<open>
  The cycle of the rotation phases. The empty phase of a fresh \<open>RotationStatus\<close> is
  handled as \<open>Idle\<close> by \<open>RotateCredentials\<close>.
\<close>

definition definedPhase :: "string \<Rightarrow> bool" where
  "definedPhase p =
     (p = RotationPhaseIdle \<or> p = RotationPhaseCreatingNew \<or> p = RotationPhaseCutover
      \<or> p = RotationPhaseRevoking \<or> p = RotationPhaseComplete)"

definition startPhase :: "string \<Rightarrow> bool" where
  "startPhase p = (p = [] \<or> definedPhase p)"

definition nextPhase :: "string \<Rightarrow> string" where
  "nextPhase p =
     (if p = RotationPhaseIdle \<or> p = [] then RotationPhaseCreatingNew
      else if p = RotationPhaseCreatingNew then RotationPhaseCutover
      else if p = RotationPhaseCutover then RotationPhaseRevoking
      else if p = RotationPhaseRevoking then RotationPhaseComplete
      else RotationPhaseIdle)"

text \<open>
  \<open>oneStep p q\<close>: a call that started in phase \<open>p\<close> and left phase \<open>q\<close> made no
  transition or the one transition out of \<open>p\<close>, and \<open>q\<close> is one of the five phases.
\<close>

definition oneStep :: "string \<Rightarrow> string \<Rightarrow> bool" where
  "oneStep p q = (definedPhase q \<and> (q = p \<or> q = nextPhase p))"

text \<open>
  A controller holds the Database in memory and the platform holds the persisted one.
  \<open>Advance\<close> is a call of \<open>RotateCredentials\<close> against some state of the platform,
  \<open>Persist\<close> a successful write of the status, \<open>Restart\<close> a restart of the controller,
  which reloads the object from the persisted one.
\<close>

datatype event = Advance string world | Persist | Restart

fun step :: "event \<Rightarrow> Database \<times> Database \<Rightarrow> Database \<times> Database" where
  "step (Advance password w) (mem, per) = (fst (snd (RotateCredentials password mem w)), per)"
| "step Persist (mem, per) = (mem, mem)"
| "step Restart (mem, per) = (per, per)"

fun stepOk :: "event \<Rightarrow> Database \<times> Database \<Rightarrow> bool" where
  "stepOk (Advance password w) (mem, per) =
     oneStep (currentPhase mem) (currentPhase (fst (snd (RotateCredentials password mem w))))"
| "stepOk Persist (mem, per) = True"
| "stepOk Restart (mem, per) = startPhase (currentPhase per)"

fun runOk :: "event list \<Rightarrow> Database \<times> Database \<Rightarrow> bool" where
  "runOk [] s = True"
| "runOk (e # es) s = (stepOk e s \<and> runOk es (step e s))"


section \<open>Sequences of condition updates\<close>

record conditionCall =
  call_now :: Time
  call_type :: string
  call_status :: ConditionStatus
  call_reason :: string
  call_message :: string

definition applyCall :: "Database \<Rightarrow> conditionCall \<Rightarrow> Database" where
  "applyCall db c =
     setCondition (call_now c) db (call_type c) (call_status c) (call_reason c) (call_message c)"

definition setConditionCalls :: "Database \<Rightarrow> conditionCall list \<Rightarrow> Database" where
  "setConditionCalls db calls = foldl applyCall db calls"


section \<open>Example resources\<close>

definition sampleKey :: ObjectKey where
  "sampleKey = (''prod'', ''orders'')"

definition sampleDatabase :: Database where
  "sampleDatabase =
     \<lparr>Name = ''orders'', Namespace = ''prod'', Generation = 3, DeletionTimestamp = None,
      Finalizers = [''db.platform.io/finalizer''],
      Spec = \<lparr>Engine = EnginePostgreSQL, Version = ''2.4.1'',
               Topology = \<lparr>Mode = TopologyStandalone, Replicas = 1\<rparr>,
               Storage = \<lparr>StorageClassName = [], Size = ''10Gi'', VolumeMode = ''Filesystem''\<rparr>,
               Resources = ([], []),
               Networking = \<lparr>ServiceType = ''ClusterIP'', Networking_Port = 0\<rparr>,
               Backup = \<lparr>Backup_Enabled = False, Backup_Schedule = [], Backup_Retention = 7\<rparr>,
               Restore = None,
               Auth = \<lparr>Consul = None, RotationPolicy = None\<rparr>,
               Maintenance = \<lparr>Windows = []\<rparr>,
               Lifecycle = \<lparr>Paused = False, DeletionPolicy = DeletionPolicyDelete\<rparr>,
               EngineConfig = []\<rparr>,
      Status = \<lparr>Phase = PhaseReady, Conditions = [], Endpoint = ''orders.prod.svc'',
                 ReadyReplicas = 1, CurrentVersion = ''2.4.1'', ObservedGeneration = 3,
                 Health = \<lparr>Health_Status = ''Healthy'', Health_Message = [],
                            Health_LastCheckTime = None\<rparr>,
                 LastReconcileTime = None, RotationStatus = None\<rparr>\<rparr>"

definition withVersion :: "string \<Rightarrow> Database \<Rightarrow> Database" where
  "withVersion v db = db\<lparr>Spec := (Spec db)\<lparr>Version := v\<rparr>\<rparr>"

text \<open>An engine whose every method succeeds and leaves the platform as it is.\<close>

definition sampleEngine :: Engine where
  "sampleEngine =
     \<lparr>Validate = (\<lambda>db. Inr ()),
      EnsureStorage = (\<lambda>db w. (Inr (claimOf db), w)),
      EnsureConfig = (\<lambda>db w. (Inr (), w)),
      EnsureService = (\<lambda>db w. (Inr (serviceOf db), w)),
      EnsureWorkload = (\<lambda>db w. (Inr (), w)),
      Scale = (\<lambda>db w. (Inr (), w)),
      Upgrade = (\<lambda>db w. (Inr (), w)),
      Engine_Backup = (\<lambda>db w. (Inr ''backup-1'', w)),
      Engine_Restore = (\<lambda>db w. (Inr (), w)),
      RotateAuth = (\<lambda>db w. (Inr (), w)),
      Heal = (\<lambda>db w. (Inr (), w)),
      Engine_Status = (\<lambda>db w. (Inr \<lparr>Health_Status = ''Healthy'', Health_Message = [],
                                      Health_LastCheckTime = None\<rparr>, w)),
      GetEndpoint = (\<lambda>db w. (Inr ''orders.prod.svc'', w))\<rparr>"

text \<open>A reconciler whose factory hands out that engine, and the one of the repository.\<close>

definition sampleReconciler :: DatabaseReconciler where
  "sampleReconciler = \<lparr>EngineFactory = (\<lambda>db. Inr sampleEngine)\<rparr>"

definition defaultReconciler :: DatabaseReconciler where
  "defaultReconciler = \<lparr>EngineFactory = GetEngine\<rparr>"

text \<open>
  A platform without faults at the given time. It stores the given Database under
  \<open>sampleKey\<close>, and the workload of \<open>sampleDatabase\<close> with one ready replica.
\<close>

definition sampleWorkload :: StatefulSet where
  "sampleWorkload =
     (workloadOf sampleDatabase)\<lparr>Sts_Owner := Some ''orders'', Sts_ReadyReplicas := 1\<rparr>"

definition sampleWorld :: "Time \<Rightarrow> Database \<Rightarrow> world" where
  "sampleWorld now db =
     \<lparr>clock = now, fault = (\<lambda>c. None), log = [],
      databases = [sampleKey \<mapsto> db], secrets = Map.empty, jobs = Map.empty,
      cronjobs = Map.empty, statefulsets = [sampleKey \<mapsto> sampleWorkload],
      deployments = Map.empty, pvcs = Map.empty, configmaps = Map.empty,
      services = Map.empty\<rparr>"

text \<open>
  The same platform with everything the PostgreSQL engine keeps for \<open>sampleDatabase\<close>:
  its volume claim, its configuration, its credentials and its service.
\<close>

definition runningWorld :: "Time \<Rightarrow> Database \<Rightarrow> world" where
  "runningWorld now db =
     (sampleWorld now db)
       \<lparr>secrets := [(''prod'', ''orders-credentials'') \<mapsto>
                      stored_Secret ((credentialsOf sampleDatabase)\<lparr>Secret_Owner := Some ''orders''\<rparr>)],
        pvcs := [(''prod'', ''orders-data'') \<mapsto>
                   (claimOf sampleDatabase)\<lparr>PVC_Owner := Some ''orders''\<rparr>],
        configmaps := [(''prod'', ''orders-config'') \<mapsto>
                         \<lparr>ConfigMap_Name = ''orders-config'', ConfigMap_Namespace = ''prod'',
                          ConfigMap_Data =
                            Some [''postgresql.conf'' \<mapsto> generatePostgresConfig sampleDatabase],
                          ConfigMap_Owner = Some ''orders''\<rparr>],
        services := [sampleKey \<mapsto> (serviceOf sampleDatabase)\<lparr>Service_Owner := Some ''orders''\<rparr>]\<rparr>"

text \<open>Sunday 7 January 2024 and Monday 8 January 2024, 03:00 UTC.\<close>

definition sunday0300 :: Time where
  "sunday0300 = (19729 * 86400 + 3 * 3600) * 1000000000"

definition monday0300 :: Time where
  "monday0300 = (19730 * 86400 + 3 * 3600) * 1000000000"

definition sundayWindow :: MaintenanceWindow where
  "sundayWindow = \<lparr>DayOfWeek = 0, StartTime = ''02:00'', Window_Duration = 4 * 3600 * 1000000000\<rparr>"


definition sqliteDatabase :: Database where
  "sqliteDatabase =
     sampleDatabase\<lparr>Spec := (Spec sampleDatabase)\<lparr>Engine := EngineSQLite,
                          Topology := \<lparr>Mode = TopologyReplicated, Replicas = 3\<rparr>\<rparr>\<rparr>"

definition upgradeDatabase :: Database where
  "upgradeDatabase =
     sampleDatabase\<lparr>Spec := (Spec sampleDatabase)\<lparr>Version := ''2.5.0'',
                          Maintenance := \<lparr>Windows = [sundayWindow]\<rparr>\<rparr>\<rparr>"

definition pausedDatabase :: Database where
  "pausedDatabase =
     sampleDatabase\<lparr>Spec := (Spec sampleDatabase)\<lparr>Lifecycle :=
        \<lparr>Paused = True, DeletionPolicy = DeletionPolicyDelete\<rparr>\<rparr>\<rparr>"

definition retainDatabase :: Database where
  "retainDatabase =
     sampleDatabase\<lparr>DeletionTimestamp := Some sunday0300,
                    Spec := (Spec sampleDatabase)\<lparr>Lifecycle :=
        \<lparr>Paused = False, DeletionPolicy = DeletionPolicyRetain\<rparr>\<rparr>\<rparr>"

definition backupDatabase :: Database where
  "backupDatabase =
     sampleDatabase\<lparr>Spec := (Spec sampleDatabase)\<lparr>Backup :=
        \<lparr>Backup_Enabled = True, Backup_Schedule = ''0 2 * * *'', Backup_Retention = 7\<rparr>\<rparr>\<rparr>"

definition consulDatabase :: Database where
  "consulDatabase =
     sampleDatabase\<lparr>Spec := (Spec sampleDatabase)\<lparr>Auth :=
        \<lparr>Consul = Some \<lparr>Consul_Enabled = True,
                          Consul_Address = ''consul.default.svc.cluster.local:8500'',
                          Consul_Path = ''database/credentials/orders''\<rparr>,
         RotationPolicy = None\<rparr>\<rparr>\<rparr>"

definition rotationDatabase :: Database where
  "rotationDatabase =
     sampleDatabase\<lparr>Spec := (Spec sampleDatabase)\<lparr>Auth :=
        \<lparr>Consul = None,
         RotationPolicy = Some \<lparr>Rotation_Enabled = True, Rotation_Schedule = ''0 0 1 * *'',
                                  Rotation_Strategy = ''TwoPhase''\<rparr>\<rparr>\<rparr>\<rparr>"

definition sampleRun :: "event list" where
  "sampleRun =
     [Advance ''s3cr3t'' (sampleWorld sunday0300 consulDatabase), Restart,
      Advance ''s3cr3t'' (sampleWorld sunday0300 sampleDatabase), Persist, Restart,
      Advance ''0th3r'' (sampleWorld monday0300 sampleDatabase)]"

definition readyCondition :: Condition where
  "readyCondition =
     \<lparr>Cond_Type = ConditionTypeReady, Cond_Status = ConditionTrue, Cond_ObservedGeneration = 3,
      Cond_LastTransitionTime = sunday0300, Cond_Reason = ''Ready'',
      Cond_Message = ''Database is ready''\<rparr>"

definition readyDatabase :: Database where
  "readyDatabase = sampleDatabase\<lparr>Status := (Status sampleDatabase)\<lparr>Conditions := [readyCondition]\<rparr>\<rparr>"

definition sampleCalls :: "conditionCall list" where
  "sampleCalls =
     [\<lparr>call_now = monday0300, call_type = ConditionTypeReady, call_status = ConditionFalse,
       call_reason = ''NotReady'', call_message = ''Replicas are starting''\<rparr>,
      \<lparr>call_now = monday0300, call_type = ConditionTypeValidated, call_status = ConditionTrue,
       call_reason = ''ValidationSucceeded'', call_message = ''Spec validation passed''\<rparr>]"


section \<open>Observations on a call\<close>

text \<open>The calls that left the process during one \<open>Reconcile\<close>.\<close>

definition calls :: "world \<Rightarrow> outcome \<Rightarrow> call list" where
  "calls w out = drop (length (log w)) (log (post out))"

fun isDelete :: "call \<Rightarrow> bool" where
  "isDelete (ClientCall Delete k key) = True"
| "isDelete c = False"

definition rotateCalls :: "call list \<Rightarrow> call list" where
  "rotateCalls cs = filter (\<lambda>c. c = EngineCall MRotateAuth) cs"

text \<open>\<open>isAt weekday hour minute t\<close>: the instant \<open>t\<close> is that time of that day of the week.\<close>

definition isAt :: "int \<Rightarrow> int \<Rightarrow> int \<Rightarrow> Time \<Rightarrow> bool" where
  "isAt weekday hour minute t =
     (Weekday t = weekday \<and> t mod nsPerDay = (hour * 3600 + minute * 60) * nsPerSecond)"

text \<open>The platform as the next periodic reconciliation finds it, five minutes later.\<close>

definition nextCycle :: "world \<Rightarrow> world" where
  "nextCycle w = w\<lparr>clock := clock w + 5 * 60 * nsPerSecond\<rparr>"


section \<open>Unfolding the model on an example\<close>

lemmas reconcile_defs = Reconcile_def Reconcile_main_def Reconcile_validate_def Reconcile_ensure_def
  Reconcile_restore_def Reconcile_workload_def Reconcile_upgrade_def Reconcile_finish_def
  Reconcile_backup_def Reconcile_rotation_def Reconcile_heal_def Reconcile_ready_def
  failValidation_def callEngine_def
  handleDeletion_def removeFinalizerAndUpdate_def updateWorkloadStatus_def ensureBackupCronJob_def
  handleCredentialRotation_def client_Get_def client_Update_def Status_Update_def logged_def
  engineCall_def ret_def noRequeue_def after_def updatePhase_def setCondition_def setConditions_def
  ContainsFinalizer_def AddFinalizer_def RemoveFinalizer_def databaseFinalizer_def
  validateSpec_def validateVersionUpgrade_def checkMaintenanceWindow_def

lemmas sample_defs = sampleDatabase_def sampleWorld_def sampleKey_def sampleEngine_def
  sampleReconciler_def sampleWorkload_def workloadOf_def postgresImage_def postgresLabels_def
  postgresDataPath_def


section \<open>Version validation\<close>

lemma CompareVersions_examples:
  "CompareVersions ''2.4.1'' ''2.3.9'' = Inr 1"
  "CompareVersions ''2.4.1'' ''2.4.1'' = Inr 0"
  "CompareVersions ''2.4.1'' ''2.5.0'' = Inr (- 1)"
  "CompareVersions ''2.4'' ''2.4.0'' = Inr 0"
  "CompareVersions ''2.x'' ''2.0'' = Inl (invalidVersion ''2.x'')"
  "CompareVersions ''2.x'' ''3.0'' = Inr (- 1)"
  by (simp_all add: CompareVersions_def Atoi_def digit_def decide_def)

lemma validateSpec_ignores_versions:
  "validateSpec (db\<lparr>Spec := (Spec db)\<lparr>Version := v\<rparr>,
                    Status := (Status db)\<lparr>CurrentVersion := c\<rparr>\<rparr>) = validateSpec db"
  by (simp add: validateSpec_def validateVersionUpgrade_def)

text \<open>
  Claim C1. With the running version 2.4.1 recorded in the status, validation of the
  desired version 2.3.9 should answer a validation error. \<open>validateSpec\<close> answers no
  error: \<open>validateVersionUpgrade\<close> compares nothing, although \<open>IsVersionDowngrade\<close> of
  package utils recognises the downgrade. (The desired versions 2.4.1 and 2.5.0 are
  accepted, as the claim says.)
\<close>

theorem validateSpec_accepts_downgrade:
  "CurrentVersion (Status (withVersion ''2.3.9'' sampleDatabase)) = ''2.4.1''
   \<and> Version (Spec (withVersion ''2.3.9'' sampleDatabase)) = ''2.3.9''
   \<and> validateSpec (withVersion ''2.3.9'' sampleDatabase) = None
   \<and> validateSpec (withVersion ''2.4.1'' sampleDatabase) = None
   \<and> validateSpec (withVersion ''2.5.0'' sampleDatabase) = None
   \<and> IsVersionDowngrade ''2.4.1'' ''2.3.9'' = Inr True"
  by (simp add: validateSpec_def validateVersionUpgrade_def withVersion_def sampleDatabase_def
      IsVersionDowngrade_def CompareVersions_def Atoi_def digit_def decide_def)


section \<open>Replica and topology validation\<close>

text \<open>
  Claim C8. Validation fails exactly for SQLite with more than one replica and for
  Elasticsearch in the Standalone topology; every other combination of engine, replica
  count and topology passes.
\<close>

theorem validateSpec_replicas_topology:
  "(validateSpec db \<noteq> None) =
     (Engine (Spec db) = EngineSQLite \<and> 1 <s Replicas (Topology (Spec db))
      \<or> Engine (Spec db) = EngineElasticsearch
         \<and> Mode (Topology (Spec db)) = TopologyStandalone)"
  by (simp add: validateSpec_def validateVersionUpgrade_def)

theorem validateSpec_replicas_topology_witness:
  "validateSpec sqliteDatabase \<noteq> None \<and> \<not> (validateSpec sampleDatabase \<noteq> None)"
  using validateSpec_replicas_topology [of sqliteDatabase]
    validateSpec_replicas_topology [of sampleDatabase]
  by (simp add: sqliteDatabase_def sampleDatabase_def word_sless_alt)


section \<open>Conditions\<close>

lemma findExisting_types:
  "findExisting c cs = Some cs' \<Longrightarrow> map Cond_Type cs' = map Cond_Type cs"
  by (induction cs arbitrary: cs') (auto split: if_splits)

lemma findExisting_None:
  "findExisting c cs = None \<Longrightarrow> Cond_Type c \<notin> set (map Cond_Type cs)"
  by (induction cs) (auto split: if_splits)

lemma setConditions_distinct:
  "distinct (map Cond_Type cs) \<Longrightarrow> distinct (map Cond_Type (setConditions c cs))"
  by (auto simp: setConditions_def split: option.splits
           dest: findExisting_types findExisting_None)

lemma setCondition_distinct:
  "distinct (map Cond_Type (Conditions (Status db))) \<Longrightarrow>
   distinct (map Cond_Type (Conditions (Status (setCondition now db t st r m))))"
  by (simp add: setCondition_def Let_def setConditions_distinct)

lemma setConditionCalls_distinct:
  "distinct (map Cond_Type (Conditions (Status db))) \<Longrightarrow>
   distinct (map Cond_Type (Conditions (Status (setConditionCalls db cs))))"
  unfolding setConditionCalls_def
  by (induction cs arbitrary: db) (simp_all add: applyCall_def setCondition_distinct)

lemma findExisting_same:
  "find (\<lambda>x. Cond_Type x = Cond_Type c) cs = Some x \<Longrightarrow> Cond_Status x = Cond_Status c \<Longrightarrow>
   findExisting c cs = Some cs"
  by (induction cs) (auto split: if_splits)

lemma setCondition_same:
  "find (\<lambda>x. Cond_Type x = t) (Conditions (Status db)) = Some x \<Longrightarrow> Cond_Status x = st \<Longrightarrow>
   setCondition now db t st r m = db"
  by (simp add: setCondition_def Let_def setConditions_def findExisting_same)

text \<open>
  Claim C10. Whatever sequence of \<open>setCondition\<close> calls is applied to a status whose
  conditions have pairwise different types, the conditions still have pairwise different
  types afterwards. And a call whose type is the type of a stored condition (the first one
  of that type) with the same status changes nothing at all: reason, message and
  last-transition-time of the stored entry stay, whatever the call supplies.
\<close>

theorem setCondition_unique_types:
  "(distinct (map Cond_Type (Conditions (Status db))) \<longrightarrow>
      distinct (map Cond_Type (Conditions (Status (setConditionCalls db cs)))))
   \<and> (find (\<lambda>x. Cond_Type x = t) (Conditions (Status db)) = Some x \<and> Cond_Status x = st \<longrightarrow>
      setCondition now db t st reason msg = db)"
  using setConditionCalls_distinct setCondition_same by blast

theorem setCondition_unique_types_witness:
  "distinct (map Cond_Type (Conditions (Status readyDatabase)))
   \<and> distinct (map Cond_Type (Conditions (Status (setConditionCalls readyDatabase sampleCalls))))
   \<and> find (\<lambda>x. Cond_Type x = ConditionTypeReady) (Conditions (Status readyDatabase))
       = Some readyCondition
   \<and> Cond_Status readyCondition = ConditionTrue
   \<and> setCondition monday0300 readyDatabase ConditionTypeReady ConditionTrue
        ''StillReady'' ''Another message'' = readyDatabase"
proof -
  have d: "distinct (map Cond_Type (Conditions (Status readyDatabase)))"
    by (simp add: readyDatabase_def)
  have f: "find (\<lambda>x. Cond_Type x = ConditionTypeReady) (Conditions (Status readyDatabase))
             = Some readyCondition \<and> Cond_Status readyCondition = ConditionTrue"
    by (simp add: readyDatabase_def readyCondition_def)
  note T = setCondition_unique_types [of readyDatabase sampleCalls ConditionTypeReady
      readyCondition ConditionTrue monday0300 "''StillReady''" "''Another message''"]
  show ?thesis
    using d f T [THEN conjunct1, THEN mp, OF d] T [THEN conjunct2, THEN mp, OF f] by simp
qed


section \<open>Deletion with policy Retain\<close>

lemma retain_calls:
  assumes "databases w req = Some db" and "(Namespace db, Name db) = req"
    and "fault w (ClientCall Get KDatabase req) = None"
    and "DeletionTimestamp db \<noteq> None" and "ContainsFinalizer db databaseFinalizer"
    and "DeletionPolicy (Lifecycle (Spec db)) = DeletionPolicyRetain"
  shows "log (post (Reconcile r req w)) =
           log w @ [ClientCall Get KDatabase req, ClientCall StatusUpdate KDatabase req,
                    ClientCall Update KDatabase req]"
  using assms
  by (auto simp: Reconcile_def client_Get_def handleDeletion_def Status_Update_def
        client_Update_def logged_def ret_def Let_def updatePhase_def RemoveFinalizer_def
        ContainsFinalizer_def
      split: option.splits prod.splits)

lemma retain_finalizer:
  assumes "databases w req = Some db" and "(Namespace db, Name db) = req"
    and "fault w (ClientCall Get KDatabase req) = None"
    and "DeletionTimestamp db \<noteq> None" and "ContainsFinalizer db databaseFinalizer"
    and "DeletionPolicy (Lifecycle (Spec db)) = DeletionPolicyRetain"
    and "err (Reconcile r req w) = None"
  shows "\<exists>d. databases (post (Reconcile r req w)) req = Some d
            \<and> databaseFinalizer \<notin> set (Finalizers d)"
  using assms
  by (auto simp: Reconcile_def client_Get_def handleDeletion_def Status_Update_def
        client_Update_def logged_def ret_def Let_def updatePhase_def RemoveFinalizer_def
        ContainsFinalizer_def
      split: option.splits prod.splits if_splits)

lemma retain_stores:
  assumes "databases w req = Some db" and "(Namespace db, Name db) = req"
    and "fault w (ClientCall Get KDatabase req) = None"
    and "DeletionTimestamp db \<noteq> None" and "ContainsFinalizer db databaseFinalizer"
    and "DeletionPolicy (Lifecycle (Spec db)) = DeletionPolicyRetain"
  shows "secrets (post (Reconcile r req w)) = secrets w
       \<and> jobs (post (Reconcile r req w)) = jobs w
       \<and> cronjobs (post (Reconcile r req w)) = cronjobs w
       \<and> statefulsets (post (Reconcile r req w)) = statefulsets w
       \<and> deployments (post (Reconcile r req w)) = deployments w"
  using assms
  by (auto simp: Reconcile_def client_Get_def handleDeletion_def Status_Update_def
        client_Update_def logged_def ret_def Let_def updatePhase_def RemoveFinalizer_def
        ContainsFinalizer_def
      split: option.splits prod.splits if_splits)

text \<open>
  Claim C7. For a Database stored under its key with a deletion timestamp, the finalizer
  and the deletion policy Retain, one \<open>Reconcile\<close> makes three calls and no other: it reads
  the Database, writes its status and updates it. None of them is a delete, no engine
  method runs, and the secrets, jobs, cron jobs and workloads of the platform are as
  before. When the call returns without error, the stored Database no longer carries the
  finalizer.
\<close>

theorem retain_removes_finalizer_without_deletes:
  assumes "databases w req = Some db" and "(Namespace db, Name db) = req"
    and "fault w (ClientCall Get KDatabase req) = None"
    and "DeletionTimestamp db \<noteq> None" and "ContainsFinalizer db databaseFinalizer"
    and "DeletionPolicy (Lifecycle (Spec db)) = DeletionPolicyRetain"
  shows "calls w (Reconcile r req w) =
           [ClientCall Get KDatabase req, ClientCall StatusUpdate KDatabase req,
            ClientCall Update KDatabase req]
       \<and> filter isDelete (calls w (Reconcile r req w)) = []
       \<and> secrets (post (Reconcile r req w)) = secrets w
       \<and> jobs (post (Reconcile r req w)) = jobs w
       \<and> cronjobs (post (Reconcile r req w)) = cronjobs w
       \<and> statefulsets (post (Reconcile r req w)) = statefulsets w
       \<and> deployments (post (Reconcile r req w)) = deployments w
       \<and> (err (Reconcile r req w) = None \<longrightarrow>
            (\<exists>d. databases (post (Reconcile r req w)) req = Some d
                 \<and> databaseFinalizer \<notin> set (Finalizers d)))"
proof -
  have c: "calls w (Reconcile r req w) =
           [ClientCall Get KDatabase req, ClientCall StatusUpdate KDatabase req,
            ClientCall Update KDatabase req]"
    by (simp add: calls_def retain_calls [OF assms])
  have d: "filter isDelete (calls w (Reconcile r req w)) = []"
    by (simp add: c)
  show ?thesis
    using c d retain_stores [OF assms, of r] retain_finalizer [OF assms, of r] by simp
qed

theorem retain_removes_finalizer_without_deletes_witness:
  "err (Reconcile sampleReconciler sampleKey (sampleWorld monday0300 retainDatabase)) = None
   \<and> calls (sampleWorld monday0300 retainDatabase)
        (Reconcile sampleReconciler sampleKey (sampleWorld monday0300 retainDatabase)) =
       [ClientCall Get KDatabase sampleKey, ClientCall StatusUpdate KDatabase sampleKey,
        ClientCall Update KDatabase sampleKey]
   \<and> (\<exists>d. databases (post (Reconcile sampleReconciler sampleKey
                              (sampleWorld monday0300 retainDatabase))) sampleKey = Some d
          \<and> databaseFinalizer \<notin> set (Finalizers d))"
proof -
  have h: "databases (sampleWorld monday0300 retainDatabase) sampleKey = Some retainDatabase"
    "(Namespace retainDatabase, Name retainDatabase) = sampleKey"
    "fault (sampleWorld monday0300 retainDatabase) (ClientCall Get KDatabase sampleKey) = None"
    "DeletionTimestamp retainDatabase \<noteq> None"
    "ContainsFinalizer retainDatabase databaseFinalizer"
    "DeletionPolicy (Lifecycle (Spec retainDatabase)) = DeletionPolicyRetain"
    by (simp_all add: sample_defs retainDatabase_def ContainsFinalizer_def databaseFinalizer_def)
  have e: "err (Reconcile sampleReconciler sampleKey (sampleWorld monday0300 retainDatabase)) = None"
    by (simp add: reconcile_defs sample_defs retainDatabase_def Let_def)
  note T = retain_removes_finalizer_without_deletes [OF h, of sampleReconciler]
  show ?thesis
    using e T by blast
qed


section \<open>Paused Databases\<close>

lemma paused_reconcile:
  assumes "databases w req = Some db"
    and "fault w (ClientCall Get KDatabase req) = None"
    and "DeletionTimestamp db = None" and "ContainsFinalizer db databaseFinalizer"
    and "Paused (Lifecycle (Spec db))"
  shows "Reconcile r req w =
           \<lparr>res = noRequeue, err = None, obj = Some (updatePhase db PhasePaused),
            post = logged (ClientCall Get KDatabase req) w\<rparr>"
  using assms by (simp add: Reconcile_def client_Get_def ret_def)

text \<open>
  Claim C6. For a paused Database (finalizer present, no deletion timestamp) one
  \<open>Reconcile\<close> should set the phase Paused and persist it. On the paused example, whose
  stored phase is Ready, \<open>Reconcile\<close> sets the phase Paused in the object it holds and
  returns; the one call it makes is the read of the Database, and the stored Database is
  what it was, with the phase Ready. (No further mutation happens, as the claim says.)
\<close>

theorem paused_phase_not_persisted:
  "Reconcile sampleReconciler sampleKey (sampleWorld sunday0300 pausedDatabase) =
     \<lparr>res = noRequeue, err = None, obj = Some (updatePhase pausedDatabase PhasePaused),
      post = (sampleWorld sunday0300 pausedDatabase)\<lparr>log := [ClientCall Get KDatabase sampleKey]\<rparr>\<rparr>
   \<and> databases (post (Reconcile sampleReconciler sampleKey
                         (sampleWorld sunday0300 pausedDatabase))) sampleKey = Some pausedDatabase
   \<and> Phase (Status pausedDatabase) = PhaseReady
   \<and> Phase (Status (updatePhase pausedDatabase PhasePaused)) = PhasePaused"
  by (simp add: reconcile_defs sample_defs pausedDatabase_def)


section \<open>The backup schedule\<close>

lemma ensureBackupCronJob_nothing: "ensureBackupCronJob db w = (None, w)"
  by (simp add: ensureBackupCronJob_def)

lemma CreateBackupCronJob_twice:
  "case CreateBackupCronJob backupDatabase (sampleWorld sunday0300 backupDatabase) of
     (r1, w1) \<Rightarrow>
       (case CreateBackupCronJob backupDatabase w1 of
          (r2, w2) \<Rightarrow> \<not> isl r1 \<and> r2 = Inl (AlreadyExists ''orders-backup''))"
  by (simp add: CreateBackupCronJob_def SetControllerRef_def Create_CronJob_def logged_def
      sample_defs backupDatabase_def Let_def)

lemma backup_schedule_never_created_postgres:
  "err (Reconcile defaultReconciler sampleKey (runningWorld sunday0300 backupDatabase)) = None
   \<and> cronjobs (post (Reconcile defaultReconciler sampleKey
                        (runningWorld sunday0300 backupDatabase))) = Map.empty
   \<and> filter (\<lambda>c. case c of ClientCall v k key \<Rightarrow> k = KCronJob | _ \<Rightarrow> False)
        (log (post (Reconcile defaultReconciler sampleKey
                      (runningWorld sunday0300 backupDatabase)))) = []"
  by (simp add: reconcile_defs sample_defs backupDatabase_def Let_def word_sless_alt
      GetEngine_def PostgresEngine_def Postgres_Validate_def
      Postgres_EnsureStorage_def Postgres_EnsureConfig_def ensureCredentials_def
      Postgres_EnsureService_def Postgres_EnsureWorkload_def Postgres_GetEndpoint_def
      CreateOrUpdate_def client_Create_def client_Update_object_def SetControllerRef_def
      claimOf_def credentialsOf_def serviceOf_def servicePort_def generatePostgresConfig_def
      stored_Secret_def postgresPort_def showInt_def digitChar_def
      defaultReconciler_def runningWorld_def)

text \<open>
  Claim C9. With \<open>backup.enabled\<close> set, a reconciliation should leave exactly one scheduled
  backup template for the Database, created on the first invocation and updated in place
  afterwards. On the backup example, \<open>Reconcile\<close> runs to its end without error and makes
  no call that creates or updates a CronJob; the platform holds no CronJob named after
  the Database afterwards, and yet the stored condition BackupConfigured is True.
\<close>

theorem backup_schedule_never_created:
  "Backup_Enabled (Backup (Spec backupDatabase))
   \<and> err (Reconcile sampleReconciler sampleKey (sampleWorld sunday0300 backupDatabase)) = None
   \<and> log (post (Reconcile sampleReconciler sampleKey (sampleWorld sunday0300 backupDatabase))) =
       [ClientCall Get KDatabase sampleKey, EngineCall MValidate, EngineCall MEnsureStorage,
        EngineCall MEnsureConfig, EngineCall MEnsureService, EngineCall MGetEndpoint,
        EngineCall MEnsureWorkload, ClientCall Get KStatefulSet sampleKey, EngineCall MHeal,
        EngineCall MStatus, ClientCall StatusUpdate KDatabase sampleKey]
   \<and> cronjobs (post (Reconcile sampleReconciler sampleKey
                        (sampleWorld sunday0300 backupDatabase))) (''prod'', ''orders-backup'') = None
   \<and> map_option (\<lambda>d. map (\<lambda>c. (Cond_Type c, Cond_Status c)) (Conditions (Status d)))
        (databases (post (Reconcile sampleReconciler sampleKey
                            (sampleWorld sunday0300 backupDatabase))) sampleKey) =
       Some [(ConditionTypeValidated, ConditionTrue), (ConditionTypeStorageReady, ConditionTrue),
             (ConditionTypeProvisioned, ConditionTrue),
             (ConditionTypeBackupConfigured, ConditionTrue),
             (ConditionTypeReady, ConditionTrue)]"
  by (simp add: reconcile_defs sample_defs backupDatabase_def Let_def)


section \<open>When a rotation is due\<close>

lemma handleCredentialRotation_keeps_NextRotation:
  "(case RotationStatus (Status db) of None \<Rightarrow> None | Some rs \<Rightarrow> NextRotation rs) = None \<Longrightarrow>
   (case RotationStatus (Status (fst (snd (handleCredentialRotation engine db w)))) of
      None \<Rightarrow> None | Some rs \<Rightarrow> NextRotation rs) = None"
  by (auto simp: handleCredentialRotation_def Let_def split: option.splits prod.splits answer.splits)

lemma handleCredentialRotation_due_without_NextRotation:
  "(case RotationStatus (Status db) of None \<Rightarrow> None | Some rs \<Rightarrow> NextRotation rs) = None \<Longrightarrow>
   \<exists>ys. log (snd (snd (handleCredentialRotation PostgresEngine db w)))
           = log w @ EngineCall MRotateAuth # ys"
  by (auto simp: handleCredentialRotation_def callEngine_def PostgresEngine_def Let_def
        engineCall_def logged_def
      split: option.splits)

text \<open>
  Claim C4. With the rotation policy enabled and the monthly schedule \<open>0 0 1 * *\<close>, a
  reconciliation should invoke the rotation only when the time has reached the last
  rotation plus the interval of the schedule. On the rotation example, the first
  \<open>Reconcile\<close> invokes \<open>RotateAuth\<close> and stores the time of the rotation, without a next
  rotation time; the next \<open>Reconcile\<close>, five minutes later, invokes \<open>RotateAuth\<close> again.
\<close>

theorem rotation_invoked_every_cycle:
  "rotateCalls (log (post (Reconcile sampleReconciler sampleKey
                             (sampleWorld sunday0300 rotationDatabase)))) = [EngineCall MRotateAuth]
   \<and> map_option (\<lambda>d. RotationStatus (Status d))
        (databases (post (Reconcile sampleReconciler sampleKey
                            (sampleWorld sunday0300 rotationDatabase))) sampleKey) =
       Some (Some \<lparr>Rotation_Phase = [], LastRotation = Some sunday0300,
                    NextRotation = None, JobName = []\<rparr>)
   \<and> clock (nextCycle (post (Reconcile sampleReconciler sampleKey
                               (sampleWorld sunday0300 rotationDatabase)))) =
       sunday0300 + 5 * 60 * nsPerSecond
   \<and> rotateCalls (log (post (Reconcile sampleReconciler sampleKey
        (nextCycle (post (Reconcile sampleReconciler sampleKey
                            (sampleWorld sunday0300 rotationDatabase))))))) =
       [EngineCall MRotateAuth, EngineCall MRotateAuth]"
  by (simp add: reconcile_defs sample_defs rotationDatabase_def rotateCalls_def nextCycle_def
      Let_def)


section \<open>Upgrades and the maintenance window\<close>

lemmas postgres_defs = GetEngine_def PostgresEngine_def Postgres_Validate_def
  Postgres_EnsureStorage_def Postgres_EnsureConfig_def ensureCredentials_def
  Postgres_EnsureService_def Postgres_EnsureWorkload_def Postgres_GetEndpoint_def
  CreateOrUpdate_def client_Create_def client_Update_object_def SetControllerRef_def
  claimOf_def credentialsOf_def serviceOf_def servicePort_def generatePostgresConfig_def
  stored_Secret_def postgresPort_def showInt_def digitChar_def
  defaultReconciler_def runningWorld_def

lemmas window_defs = sundayWindow_def ParseHHMM_def getnum_def digit_def Weekday_def
  monday0300_def sunday0300_def nsPerDay_def nsPerSecond_def onDayOf_def

lemma window_open:
  assumes "isAt 0 3 0 t" and "Windows (Maintenance (Spec db)) = [sundayWindow]"
  shows "checkMaintenanceWindow t db = None"
proof -
  have p: "ParseHHMM ''02:00'' = Some (2, 0)" by (simp add: ParseHHMM_def getnum_def digit_def)
  have "t div nsPerDay * nsPerDay + t mod nsPerDay = t" by (rule div_mult_mod_eq)
  moreover have "t mod nsPerDay = 10800 * nsPerSecond" using assms(1) by (simp add: isAt_def)
  ultimately have t: "t = t div nsPerDay * nsPerDay + 10800 * nsPerSecond" by linarith
  have "onDayOf t 2 0 < t" using t by (simp add: onDayOf_def nsPerSecond_def)
  moreover have "t < onDayOf t 2 0 + 4 * 3600 * 1000000000"
    using t by (simp add: onDayOf_def nsPerSecond_def)
  ultimately show ?thesis
    using assms p by (simp add: checkMaintenanceWindow_def sundayWindow_def isAt_def)
qed

lemma window_closed:
  assumes "isAt 1 3 0 t" and "Windows (Maintenance (Spec db)) = [sundayWindow]"
  shows "checkMaintenanceWindow t db \<noteq> None"
  using assms by (simp add: checkMaintenanceWindow_def sundayWindow_def isAt_def)

lemma Postgres_Upgrade_is_EnsureWorkload:
  "Upgrade PostgresEngine = EnsureWorkload PostgresEngine"
  by (simp add: PostgresEngine_def)

lemma Postgres_EnsureWorkload_image:
  assumes "fault w (SetControllerReference KStatefulSet (Namespace db, Name db)) = None"
    and "fault w (ClientCall Get KStatefulSet (Namespace db, Name db)) = None"
    and "fault w (ClientCall Update KStatefulSet (Namespace db, Name db)) = None"
    and "statefulsets w (Namespace db, Name db) = Some sts"
  shows "map_option Sts_Image (statefulsets (snd (Postgres_EnsureWorkload db w)) (Namespace db, Name db))
           = Some (''postgres:'' @ Version (Spec db))"
proof (cases "sts\<lparr>Sts_Replicas := Replicas (Topology (Spec db)),
                   Sts_Image := postgresImage @ '':'' @ Version (Spec db),
                   Sts_Resources := Resources (Spec db)\<rparr> = sts")
  case True
  then have "Sts_Image sts = postgresImage @ '':'' @ Version (Spec db)"
    by (metis StatefulSet.select_convs(6) StatefulSet.surjective StatefulSet.update_convs(3,6,8))
  then show ?thesis
    using assms True
    by (simp add: Postgres_EnsureWorkload_def SetControllerRef_def CreateOrUpdate_def
        client_Get_def logged_def Let_def postgresImage_def)
next
  case False
  then show ?thesis
    using assms
    by (simp add: Postgres_EnsureWorkload_def SetControllerRef_def CreateOrUpdate_def
        client_Get_def client_Update_object_def logged_def Let_def postgresImage_def)
qed

lemma upgrade_inside_window:
  "err (Reconcile defaultReconciler sampleKey (runningWorld sunday0300 upgradeDatabase)) = None
   \<and> filter (\<lambda>c. c = EngineCall MUpgrade)
        (log (post (Reconcile defaultReconciler sampleKey (runningWorld sunday0300 upgradeDatabase))))
       = [EngineCall MUpgrade]
   \<and> map_option (\<lambda>d. CurrentVersion (Status d))
        (databases (post (Reconcile defaultReconciler sampleKey
                            (runningWorld sunday0300 upgradeDatabase))) sampleKey) = Some ''2.5.0''"
  by (simp add: reconcile_defs sample_defs postgres_defs upgradeDatabase_def Let_def
     window_defs word_sless_alt)


text \<open>
  Claim C5. With the running version 2.4.1, the desired version 2.5.0 and the one
  maintenance window Sunday, 02:00, four hours, a reconciliation on Monday at 03:00 should
  defer the upgrade. On a platform that runs the Database at 2.4.1, \<open>Reconcile\<close> with the
  engine of the repository finds the window closed, makes no call of \<open>Upgrade\<close> and returns
  no error and a requeue after five minutes, as the claim says; the stored status still
  names 2.4.1. But the workload is upgraded all the same: \<open>EnsureWorkload\<close>, which runs
  before the versions are compared, has updated the StatefulSet from the image
  \<open>postgres:2.4.1\<close> to \<open>postgres:2.5.0\<close>, which is all that \<open>Upgrade\<close> would have done.
\<close>

theorem upgrade_applied_outside_window:
  "checkMaintenanceWindow monday0300 upgradeDatabase = Some (Error ''not in maintenance window'')
   \<and> map_option Sts_Image (statefulsets (runningWorld monday0300 upgradeDatabase) sampleKey)
       = Some ''postgres:2.4.1''
   \<and> res (Reconcile defaultReconciler sampleKey (runningWorld monday0300 upgradeDatabase))
       = after (5 * 60)
   \<and> err (Reconcile defaultReconciler sampleKey (runningWorld monday0300 upgradeDatabase)) = None
   \<and> log (post (Reconcile defaultReconciler sampleKey (runningWorld monday0300 upgradeDatabase))) =
       [ClientCall Get KDatabase sampleKey, EngineCall MValidate,
        EngineCall MEnsureStorage,
        SetControllerReference KPersistentVolumeClaim (''prod'', ''orders-data''),
        ClientCall Get KPersistentVolumeClaim (''prod'', ''orders-data''),
        EngineCall MEnsureConfig,
        SetControllerReference KConfigMap (''prod'', ''orders-config''),
        ClientCall Get KConfigMap (''prod'', ''orders-config''),
        SetControllerReference KSecret (''prod'', ''orders-credentials''),
        ClientCall Get KSecret (''prod'', ''orders-credentials''),
        EngineCall MEnsureService,
        SetControllerReference KService sampleKey,
        ClientCall Get KService sampleKey,
        EngineCall MGetEndpoint,
        EngineCall MEnsureWorkload,
        SetControllerReference KStatefulSet sampleKey,
        ClientCall Get KStatefulSet sampleKey,
        ClientCall Update KStatefulSet sampleKey]
   \<and> map_option Sts_Image
        (statefulsets (post (Reconcile defaultReconciler sampleKey
                               (runningWorld monday0300 upgradeDatabase))) sampleKey)
       = Some ''postgres:2.5.0''
   \<and> map_option (\<lambda>d. CurrentVersion (Status d))
        (databases (post (Reconcile defaultReconciler sampleKey
                            (runningWorld monday0300 upgradeDatabase))) sampleKey)
       = Some ''2.4.1''"
  by (simp add: reconcile_defs sample_defs postgres_defs upgradeDatabase_def Let_def
     window_defs word_sless_alt)


section \<open>The rotation state machine\<close>

lemma startRotation_phase:
  "currentPhase (fst (snd (startRotation pw db w))) = RotationPhaseCreatingNew"
  by (simp add: startRotation_def Let_def setRotation_def currentPhase_def
      split: prod.splits sum.splits option.splits)

lemma checkCreationJob_phase:
  "currentPhase db = RotationPhaseCreatingNew \<Longrightarrow>
   currentPhase (fst (snd (checkCreationJob db w))) = RotationPhaseCreatingNew
   \<or> currentPhase (fst (snd (checkCreationJob db w))) = RotationPhaseCutover"
  by (auto simp: checkCreationJob_def Let_def setRotation_def currentPhase_def
      split: prod.splits sum.splits option.splits)

lemma performCutover_phase:
  "currentPhase db = RotationPhaseCutover \<Longrightarrow>
   currentPhase (fst (snd (performCutover db w))) = RotationPhaseCutover
   \<or> currentPhase (fst (snd (performCutover db w))) = RotationPhaseRevoking"
  by (auto simp: performCutover_def Let_def setRotation_def currentPhase_def
      split: prod.splits sum.splits option.splits)

lemma revokeOldCredentials_phase:
  "currentPhase db = RotationPhaseRevoking \<Longrightarrow>
   currentPhase (fst (snd (revokeOldCredentials db w))) = RotationPhaseRevoking
   \<or> currentPhase (fst (snd (revokeOldCredentials db w))) = RotationPhaseComplete"
  by (auto simp: revokeOldCredentials_def Let_def setRotation_def currentPhase_def
      split: prod.splits sum.splits option.splits)

lemma completeRotation_phase:
  "currentPhase db = RotationPhaseComplete \<Longrightarrow>
   currentPhase (fst (snd (completeRotation db w))) = RotationPhaseIdle"
  by (auto simp: completeRotation_def Let_def setRotation_def currentPhase_def
      split: prod.splits sum.splits option.splits)

lemma RotateCredentials_oneStep:
  assumes "startPhase (currentPhase db)"
  shows "oneStep (currentPhase db) (currentPhase (fst (snd (RotateCredentials pw db w))))"
proof -
  consider "currentPhase db = RotationPhaseIdle \<or> currentPhase db = []"
    | "currentPhase db = RotationPhaseCreatingNew" | "currentPhase db = RotationPhaseCutover"
    | "currentPhase db = RotationPhaseRevoking" | "currentPhase db = RotationPhaseComplete"
    using assms by (auto simp: startPhase_def definedPhase_def)
  then show ?thesis
  proof cases
    case 1
    then have "RotateCredentials pw db w = startRotation pw db w"
      by (auto simp: RotateCredentials_def)
    then show ?thesis
      using 1 by (auto simp: startRotation_phase oneStep_def definedPhase_def nextPhase_def)
  next
    case 2
    then have "RotateCredentials pw db w = checkCreationJob db w"
      by (simp add: RotateCredentials_def)
    then show ?thesis
      using 2 checkCreationJob_phase [OF 2, of w]
      by (auto simp: oneStep_def definedPhase_def nextPhase_def)
  next
    case 3
    then have "RotateCredentials pw db w = performCutover db w"
      by (simp add: RotateCredentials_def)
    then show ?thesis
      using 3 performCutover_phase [OF 3, of w]
      by (auto simp: oneStep_def definedPhase_def nextPhase_def)
  next
    case 4
    then have "RotateCredentials pw db w = revokeOldCredentials db w"
      by (simp add: RotateCredentials_def)
    then show ?thesis
      using 4 revokeOldCredentials_phase [OF 4, of w]
      by (auto simp: oneStep_def definedPhase_def nextPhase_def)
  next
    case 5
    then have "RotateCredentials pw db w = completeRotation db w"
      by (simp add: RotateCredentials_def)
    then show ?thesis
      using 5 completeRotation_phase [OF 5, of w]
      by (auto simp: oneStep_def definedPhase_def nextPhase_def)
  qed
qed

lemma oneStep_startPhase: "oneStep p q \<Longrightarrow> startPhase q"
  by (simp add: oneStep_def startPhase_def)

lemma runOk_all:
  "startPhase (currentPhase mem) \<Longrightarrow> startPhase (currentPhase per) \<Longrightarrow> runOk evs (mem, per)"
proof (induction evs arbitrary: mem per)
  case Nil
  then show ?case by simp
next
  case (Cons e evs)
  show ?case
  proof (cases e)
    case (Advance pw w)
    have s: "oneStep (currentPhase mem) (currentPhase (fst (snd (RotateCredentials pw mem w))))"
      using Cons.prems(1) by (rule RotateCredentials_oneStep)
    then show ?thesis
      using Advance Cons.IH [OF oneStep_startPhase [OF s] Cons.prems(2)] by simp
  next
    case Persist
    then show ?thesis using Cons.IH [OF Cons.prems(1) Cons.prems(1)] by simp
  next
    case Restart
    then show ?thesis using Cons.IH [OF Cons.prems(2) Cons.prems(2)] Cons.prems(2) by simp
  qed
qed

lemma unknown_phase:
  "\<not> startPhase (currentPhase db) \<Longrightarrow>
   RotateCredentials pw db w = (Some (Error (''unknown rotation phase: '' @ currentPhase db)), db, w)"
  by (simp add: RotateCredentials_def startPhase_def definedPhase_def)


text \<open>
  Claim C2. Let the rotation phase of the Database in memory and of the persisted one be
  a phase of the state machine: one of Idle, CreatingNew, Cutover, Revoking, Complete, or
  the empty phase of a status that has no rotation yet. Then one call of
  \<open>RotateCredentials\<close>, whatever the platform answers, leaves one of the five phases, and
  it is the phase the call started in or its successor in the cycle. The same holds for
  every call in every sequence of calls, status writes and restarts, and every restart
  resumes in a phase of the state machine.
\<close>

theorem rotation_single_step:
  assumes "startPhase (currentPhase mem)" and "startPhase (currentPhase per)"
  shows "oneStep (currentPhase mem) (currentPhase (fst (snd (RotateCredentials password mem w))))
       \<and> runOk evs (mem, per)"
  using RotateCredentials_oneStep [OF assms(1)] runOk_all [OF assms] by simp

theorem rotation_single_step_witness:
  "startPhase (currentPhase consulDatabase) \<and> startPhase (currentPhase sampleDatabase)
   \<and> oneStep (currentPhase consulDatabase)
        (currentPhase (fst (snd (RotateCredentials ''s3cr3t'' consulDatabase
                                   (sampleWorld sunday0300 consulDatabase)))))
   \<and> runOk sampleRun (consulDatabase, sampleDatabase)"
proof -
  have m: "startPhase (currentPhase consulDatabase)"
    by (simp add: startPhase_def definedPhase_def currentPhase_def consulDatabase_def
        sampleDatabase_def)
  have p: "startPhase (currentPhase sampleDatabase)"
    by (simp add: startPhase_def definedPhase_def currentPhase_def sampleDatabase_def)
  show ?thesis
    by (rule conjI [OF m conjI [OF p rotation_single_step [OF m p]]])
qed


section \<open>A failed sync to the vault\<close>

lemmas rotation_defs = RotateCredentials_def currentPhase_def startRotation_def
  checkCreationJob_def generateSecurePassword_def SetControllerRef_def Create_Secret_def
  stored_Secret_def syncToConsul_def setRotation_def logged_def

text \<open>
  Claim C3. With the sync to Consul enabled and the rotation Idle, a failing sync should
  make \<open>RotateCredentials\<close> return an error and leave the phase Idle. On the Consul
  example, on a platform without faults, the call returns the error of the sync, but the
  phase it leaves is CreatingNew with no job name, and the new credentials secret exists
  while no job does. The next call finds CreatingNew without a job name and fails with
  "no job name in rotation status", changing nothing.
\<close>

theorem consul_failure_leaves_CreatingNew:
  "case RotateCredentials ''s3cr3t'' consulDatabase (sampleWorld sunday0300 consulDatabase) of
     (e, db', w') \<Rightarrow>
        currentPhase consulDatabase = RotationPhaseIdle
      \<and> e = Some (Wrapped ''failed to sync credentials to Consul''
                    (Error ''Consul integration not yet implemented''))
      \<and> RotationStatus (Status db') =
          Some \<lparr>Rotation_Phase = RotationPhaseCreatingNew, LastRotation = None,
                 NextRotation = None, JobName = []\<rparr>
      \<and> secrets w' (''prod'', ''orders-credentials-new'') \<noteq> None
      \<and> jobs w' = Map.empty
      \<and> RotateCredentials ''s3cr3t'' db' w' =
          (Some (Error ''no job name in rotation status''), db', w')"
  by (simp add: rotation_defs sample_defs consulDatabase_def Let_def)

end
